theory Spec2Isabelle
  imports Main "HOL-Library.Word"
begin

unbundle bit_operations_syntax

section \<open>Library functions called by the store\<close>

text \<open>
  \<^verbatim>\<open>db.py\<close> hashes passwords with
  \<^verbatim>\<open>hashlib.pbkdf2_hmac('sha256', password.encode('utf-8'), salt.encode('utf-8'), 100000)\<close>.
  The derivation is PBKDF2 (RFC 8018) over HMAC (RFC 2104) over SHA-256 (FIPS 180-4) with the
  default derived-key length, the digest size of 32 bytes, which is a single PBKDF2 block.

  A Python \<^verbatim>\<open>str\<close> is represented by the bytes of its UTF-8 encoding, one \<^typ>\<open>char\<close>
  per byte, so \<^verbatim>\<open>.encode('utf-8')\<close> reads the bytes off. A \<^verbatim>\<open>str\<close> holding a lone
  surrogate has no UTF-8 encoding and is not a \<^typ>\<open>string\<close>.
\<close>

type_synonym byte = "8 word"
type_synonym bytes = "byte list"

subsection \<open>SHA-256\<close>

definition rotr :: "nat \<Rightarrow> 32 word \<Rightarrow> 32 word" where
  "rotr n w = drop_bit n w OR push_bit (32 - n) w"

definition ch :: "32 word \<Rightarrow> 32 word \<Rightarrow> 32 word \<Rightarrow> 32 word" where
  "ch x y z = (x AND y) XOR (NOT x AND z)"

definition maj :: "32 word \<Rightarrow> 32 word \<Rightarrow> 32 word \<Rightarrow> 32 word" where
  "maj x y z = (x AND y) XOR (x AND z) XOR (y AND z)"

definition bsig0 :: "32 word \<Rightarrow> 32 word" where
  "bsig0 x = rotr 2 x XOR rotr 13 x XOR rotr 22 x"

definition bsig1 :: "32 word \<Rightarrow> 32 word" where
  "bsig1 x = rotr 6 x XOR rotr 11 x XOR rotr 25 x"

definition ssig0 :: "32 word \<Rightarrow> 32 word" where
  "ssig0 x = rotr 7 x XOR rotr 18 x XOR drop_bit 3 x"

definition ssig1 :: "32 word \<Rightarrow> 32 word" where
  "ssig1 x = rotr 17 x XOR rotr 19 x XOR drop_bit 10 x"

text \<open>The round constants and the initial hash value, written in decimal.\<close>

definition sha256_k :: "32 word list" where
  "sha256_k =
    [1116352408, 1899447441, 3049323471, 3921009573, 961987163, 1508970993,
     2453635748, 2870763221, 3624381080, 310598401, 607225278, 1426881987,
     1925078388, 2162078206, 2614888103, 3248222580, 3835390401, 4022224774,
     264347078, 604807628, 770255983, 1249150122, 1555081692, 1996064986,
     2554220882, 2821834349, 2952996808, 3210313671, 3336571891, 3584528711,
     113926993, 338241895, 666307205, 773529912, 1294757372, 1396182291,
     1695183700, 1986661051, 2177026350, 2456956037, 2730485921, 2820302411,
     3259730800, 3345764771, 3516065817, 3600352804, 4094571909, 275423344,
     430227734, 506948616, 659060556, 883997877, 958139571, 1322822218,
     1537002063, 1747873779, 1955562222, 2024104815, 2227730452, 2361852424,
     2428436474, 2756734187, 3204031479, 3329325298]"

definition sha256_h0 :: "32 word list" where
  "sha256_h0 =
    [1779033703, 3144134277, 1013904242, 2773480762,
     1359893119, 2600822924, 528734635, 1541459225]"

definition chunks :: "nat \<Rightarrow> 'a list \<Rightarrow> 'a list list" where
  "chunks n xs = map (\<lambda>i. take n (drop (n * i) xs)) [0..<length xs div n]"

definition be32 :: "bytes \<Rightarrow> 32 word" where
  "be32 bs = foldl (\<lambda>w b. push_bit 8 w OR ucast b) 0 bs"

definition word_bytes :: "32 word \<Rightarrow> bytes" where
  "word_bytes w = [ucast (drop_bit 24 w), ucast (drop_bit 16 w), ucast (drop_bit 8 w), ucast w]"

definition len64 :: "nat \<Rightarrow> bytes" where
  "len64 n = (let w = (of_nat n :: 64 word) in map (\<lambda>i. ucast (drop_bit (8 * (7 - i)) w)) [0..<8])"

definition sha256_pad :: "bytes \<Rightarrow> bytes" where
  "sha256_pad m =
     m @ [0x80] @ replicate ((119 - length m mod 64) mod 64) 0 @ len64 (8 * length m)"

fun schedule :: "nat \<Rightarrow> 32 word list \<Rightarrow> 32 word list" where
  "schedule 0 w = w"
| "schedule (Suc n) w =
     schedule n (w @ [ssig1 (w ! (length w - 2)) + w ! (length w - 7)
                      + ssig0 (w ! (length w - 15)) + w ! (length w - 16)])"

fun sha256_round :: "32 word list \<Rightarrow> 32 word \<times> 32 word \<Rightarrow> 32 word list" where
  "sha256_round [a, b, c, d, e, f, g, h] (k, w) =
     (let t1 = h + bsig1 e + ch e f g + k + w;
          t2 = bsig0 a + maj a b c
      in [t1 + t2, a, b, c, d + t1, e, f, g])"
| "sha256_round s _ = s"

definition sha256_compress :: "32 word list \<Rightarrow> bytes \<Rightarrow> 32 word list" where
  "sha256_compress hs block =
     map2 (+) hs (foldl sha256_round hs (zip sha256_k (schedule 48 (map be32 (chunks 4 block)))))"

definition sha256 :: "bytes \<Rightarrow> bytes" where
  "sha256 m = concat (map word_bytes (foldl sha256_compress sha256_h0 (chunks 64 (sha256_pad m))))"

subsection \<open>HMAC-SHA256 and PBKDF2\<close>

text \<open>
  HMAC first brings the key to the 64-byte block size of SHA-256: a longer key is replaced by
  its digest, and the result is padded with zero bytes on the right.
\<close>

definition hmac_key :: "bytes \<Rightarrow> bytes" where
  "hmac_key key =
     (let k = (if length key > 64 then sha256 key else key)
      in k @ replicate (64 - length k) 0)"

definition hmac_sha256 :: "bytes \<Rightarrow> bytes \<Rightarrow> bytes" where
  "hmac_sha256 key msg =
     (let k = hmac_key key
      in sha256 (map (\<lambda>b. b XOR 0x5c) k @ sha256 (map (\<lambda>b. b XOR 0x36) k @ msg)))"

fun pbkdf2_rounds :: "bytes \<Rightarrow> nat \<Rightarrow> bytes \<Rightarrow> bytes \<Rightarrow> bytes" where
  "pbkdf2_rounds pw 0 u t = t"
| "pbkdf2_rounds pw (Suc n) u t =
     (let u' = hmac_sha256 pw u in pbkdf2_rounds pw n u' (map2 (XOR) t u'))"

definition pbkdf2_hmac_sha256 :: "bytes \<Rightarrow> bytes \<Rightarrow> nat \<Rightarrow> bytes" where
  "pbkdf2_hmac_sha256 pw salt iterations =
     (let u1 = hmac_sha256 pw (salt @ [0, 0, 0, 1])
      in pbkdf2_rounds pw (iterations - 1) u1 u1)"

subsection \<open>Encoding\<close>

definition encode_utf8 :: "string \<Rightarrow> bytes" where
  "encode_utf8 s = map of_char s"

definition hex_digit :: "nat \<Rightarrow> char" where
  "hex_digit n = ''0123456789abcdef'' ! n"

definition hex :: "bytes \<Rightarrow> string" where
  "hex bs = concat (map (\<lambda>b. [hex_digit (unat b div 16), hex_digit (unat b mod 16)]) bs)"

section \<open>The environment of a call\<close>

text \<open>
  The exceptions the modelled code can raise: \<^verbatim>\<open>sqlite3.IntegrityError\<close> for a violated
  constraint; \<^verbatim>\<open>OverflowError\<close> from \<^verbatim>\<open>datetime\<close> arithmetic and from binding an
  \<^verbatim>\<open>int\<close> that does not fit SQLite's 64-bit \<^verbatim>\<open>INTEGER\<close>; \<^verbatim>\<open>UnicodeEncodeError\<close> from
  binding a \<^verbatim>\<open>str\<close> that holds a lone surrogate; and what \<^verbatim>\<open>json.dumps\<close> raises on a
  value it cannot serialise (\<^verbatim>\<open>TypeError\<close>, \<^verbatim>\<open>ValueError\<close>). Of these only
  \<^verbatim>\<open>IntegrityError\<close> is a \<^verbatim>\<open>sqlite3.Error\<close>. Failures of the engine itself (I/O,
  locking, a full disk, exhausted row ids) are outside the model.
\<close>

datatype error = IntegrityError | OverflowError | UnicodeEncodeError | TypeError | ValueError

definition is_sqlite3_Error :: "error \<Rightarrow> bool" where
  "is_sqlite3_Error e = (e = IntegrityError)"

text \<open>
  A timestamp is a number of microseconds counted from \<^verbatim>\<open>0001-01-01 00:00:00\<close> on the
  calendar it is written in. The columns hold timestamps as ISO text of fixed width
  (\<^verbatim>\<open>YYYY-MM-DD HH:MM:SS\<close>, followed by \<^verbatim>\<open>.ffffff\<close> when Python's adapter writes a
  non-zero microsecond), which SQLite compares as text; on the years 0001 to 9999 of
  \<^verbatim>\<open>datetime\<close> that order is the order of these numbers.
\<close>

type_synonym datetime = int

text \<open>
  What a call reads from outside the database:
  \<^item> \<open>token_hex\<close>: the string \<^verbatim>\<open>secrets.token_hex(32)\<close> returns when the call asks for a salt;
  \<^item> \<open>uuid4\<close>: the string \<^verbatim>\<open>str(uuid.uuid4())\<close> returns;
  \<^item> \<open>datetime_now\<close>: the reading of \<^verbatim>\<open>datetime.now()\<close>, the host's local wall clock;
  \<^item> \<open>current_timestamp\<close>: the value of SQLite's \<^verbatim>\<open>CURRENT_TIMESTAMP\<close> in the statements of
    the call, which is UTC and has a resolution of one second;
  \<^item> \<open>json_dumps\<close>: \<^verbatim>\<open>json.dumps\<close> on a dictionary, given as its list of items; \<open>Inl\<close> is
    the exception it raises.
  Nothing relates \<open>datetime_now\<close> to \<open>current_timestamp\<close>: they are two clocks.
\<close>

record 'v env =
  token_hex :: string
  uuid4 :: string
  datetime_now :: datetime
  current_timestamp :: datetime
  json_dumps :: "(string \<times> 'v) list \<Rightarrow> error + string"

text \<open>
  \<^verbatim>\<open>datetime.now() + timedelta(hours=h)\<close>: a \<^verbatim>\<open>timedelta\<close> spans at most 999999999 days
  either way, and a \<^verbatim>\<open>datetime\<close> lies between year 1 and year 9999 (3652059 days);
  beyond either bound Python raises \<^verbatim>\<open>OverflowError\<close>.
\<close>

definition timedelta_hours :: "int \<Rightarrow> error + int" where
  "timedelta_hours h =
     (let us = h * 3600000000
      in if - 999999999 * 86400000000 \<le> us \<and> us < 1000000000 * 86400000000
         then Inr us else Inl OverflowError)"

definition datetime_add :: "datetime \<Rightarrow> int \<Rightarrow> error + datetime" where
  "datetime_add t delta =
     (let r = t + delta
      in if 0 \<le> r \<and> r < 3652059 * 86400000000 then Inr r else Inl OverflowError)"

section \<open>Binding Python values to a statement\<close>

text \<open>
  An \<^verbatim>\<open>INTEGER\<close> of SQLite is a 64-bit two's complement value: a column holds an
  \<open>int64\<close>, read as a number by \<open>sint\<close>. Python's \<^verbatim>\<open>int\<close> is unbounded; the \<^verbatim>\<open>sqlite3\<close>
  module binds it when it lies in the 64-bit range and raises \<^verbatim>\<open>OverflowError\<close> otherwise.
  The parameters of a statement are bound in their order, before the statement runs, so the
  first parameter that does not bind decides the exception, and a statement whose parameters
  do not bind leaves the database as it was.
\<close>

type_synonym int64 = "64 word"

definition in_int64 :: "int \<Rightarrow> bool" where
  "in_int64 i = (- (2 ^ 63) \<le> i \<and> i < 2 ^ 63)"

definition bind_int :: "int \<Rightarrow> error + int64" where
  "bind_int i = (if in_int64 i then Inr (word_of_int i) else Inl OverflowError)"

definition bind_int_opt :: "int option \<Rightarrow> error + int64 option" where
  "bind_int_opt v =
     (case v of
        None \<Rightarrow> Inr None
      | Some i \<Rightarrow> (case bind_int i of Inl e \<Rightarrow> Inl e | Inr w \<Rightarrow> Inr (Some w)))"

text \<open>
  The text arguments of \<open>log_security_event\<close> and the role name of \<open>assign_role_to_user\<close>
  range over every \<^verbatim>\<open>str\<close>: \<open>Str s\<close> is the one with the UTF-8 encoding \<open>s\<close>, and
  \<open>Unencodable\<close> stands for a \<^verbatim>\<open>str\<close> that holds a lone surrogate, which the bind refuses
  with \<^verbatim>\<open>UnicodeEncodeError\<close>.
\<close>

datatype pystr = Str string | Unencodable

definition bind_text :: "pystr \<Rightarrow> error + string" where
  "bind_text t = (case t of Str s \<Rightarrow> Inr s | Unencodable \<Rightarrow> Inl UnicodeEncodeError)"

definition bind_text_opt :: "pystr option \<Rightarrow> error + string option" where
  "bind_text_opt v =
     (case v of
        None \<Rightarrow> Inr None
      | Some t \<Rightarrow> (case bind_text t of Inl e \<Rightarrow> Inl e | Inr s \<Rightarrow> Inr (Some s)))"

section \<open>The tables\<close>

text \<open>
  One record per table that an operation of \<^verbatim>\<open>DatabaseManager\<close> reads or writes, with the
  columns of \<^verbatim>\<open>create_tables\<close>; a nullable column is an \<open>option\<close>. A table is the list of
  its rows in insertion order. The \<open>_seq\<close> fields are the rows of \<^verbatim>\<open>sqlite_sequence\<close>
  that \<^verbatim>\<open>AUTOINCREMENT\<close> keeps. The tables no operation touches (tokens, friends,
  results, posts, role_permissions) are left out.
\<close>

record user =
  u_id :: int64
  u_username :: string
  u_email :: string
  u_email_verified :: bool
  u_password_hash :: string
  u_salt :: "string option"
  u_first_name :: "string option"
  u_last_name :: "string option"
  u_avatar_url :: "string option"
  u_bio :: "string option"
  u_is_active :: bool
  u_is_deleted :: bool
  u_current_results :: "int64 option"
  u_last_login_at :: "datetime option"
  u_created_at :: datetime
  u_updated_at :: datetime

record session =
  s_id :: string
  s_user_id :: int64
  s_device_info :: "string option"
  s_ip_address :: "string option"
  s_is_active :: bool
  s_expires_at :: datetime
  s_created_at :: datetime
  s_last_accessed_at :: datetime

record role =
  r_id :: int64
  r_name :: string
  r_description :: "string option"
  r_is_active :: bool
  r_created_at :: datetime

record permission =
  p_id :: int64
  p_name :: string
  p_description :: "string option"
  p_resource :: "string option"
  p_action :: "string option"
  p_created_at :: datetime

record user_role =
  ur_user_id :: int64
  ur_role_id :: int64
  ur_assigned_by :: "int64 option"
  ur_assigned_at :: datetime
  ur_expires_at :: "datetime option"

record security_log =
  l_id :: int64
  l_user_id :: "int64 option"
  l_event_type :: string
  l_ip_address :: "string option"
  l_user_agent :: "string option"
  l_success :: bool
  l_failure_reason :: "string option"
  l_metadata :: "string option"
  l_created_at :: datetime

record db =
  users :: "user list"
  users_seq :: int64
  user_sessions :: "session list"
  roles :: "role list"
  roles_seq :: int64
  permissions :: "permission list"
  permissions_seq :: int64
  user_roles :: "user_role list"
  user_security_logs :: "security_log list"
  user_security_logs_seq :: int64

section \<open>The statements\<close>

text \<open>
  \<^verbatim>\<open>execute_query\<close> runs one statement and commits it; when SQLite rejects the statement
  it rolls back and raises again. So a statement either changes the database and returns, or
  raises and leaves the database as it was. Each statement below returns its outcome next to
  the database after it.

  An \<^verbatim>\<open>AUTOINCREMENT\<close> key is one more than the largest key the table or its sequence
  has seen. An \<^verbatim>\<open>INSERT OR IGNORE\<close> that is ignored has drawn a key all the same, and the
  sequence keeps it; a rejected \<^verbatim>\<open>INSERT\<close> is rolled back whole. Once the largest key is
  the largest 64-bit value SQLite reports a full database; that failure of the engine is
  outside the model, where \<open>next_rowid\<close> wraps around.
\<close>

definition next_rowid :: "int64 \<Rightarrow> int64 list \<Rightarrow> int64" where
  "next_rowid seq ids = word_of_int (fold max (map sint ids) (sint seq) + 1)"

text \<open>A foreign key on \<open>users(id)\<close>: some row of \<open>users\<close> has the id.\<close>

definition user_exists :: "db \<Rightarrow> int \<Rightarrow> bool" where
  "user_exists d i = (i \<in> set (map (\<lambda>u. sint (u_id u)) (users d)))"

definition role_exists :: "db \<Rightarrow> int \<Rightarrow> bool" where
  "role_exists d i = (i \<in> set (map (\<lambda>r. sint (r_id r)) (roles d)))"

text \<open>
  \<^verbatim>\<open>INSERT INTO users (username, email, password_hash, salt, first_name, last_name)\<close>.
  The row takes the defaults of the schema for the columns the statement leaves out;
  \<open>username\<close> and \<open>email\<close> are \<^verbatim>\<open>UNIQUE\<close>. The result is the cursor's \<^verbatim>\<open>lastrowid\<close>.
\<close>

definition user_row ::
  "int64 \<Rightarrow> datetime \<Rightarrow> string \<Rightarrow> string \<Rightarrow> string \<Rightarrow> string \<Rightarrow> string option
     \<Rightarrow> string option \<Rightarrow> user" where
  "user_row i ts username email password_hash salt first_name last_name =
     \<lparr>u_id = i, u_username = username, u_email = email, u_email_verified = False,
      u_password_hash = password_hash, u_salt = Some salt, u_first_name = first_name,
      u_last_name = last_name, u_avatar_url = None, u_bio = None, u_is_active = True,
      u_is_deleted = False, u_current_results = None, u_last_login_at = None,
      u_created_at = ts, u_updated_at = ts\<rparr>"

definition insert_user ::
  "datetime \<Rightarrow> db \<Rightarrow> string \<Rightarrow> string \<Rightarrow> string \<Rightarrow> string \<Rightarrow> string option \<Rightarrow> string option
     \<Rightarrow> (error + int) \<times> db" where
  "insert_user ts d username email password_hash salt first_name last_name =
     (if list_ex (\<lambda>u. u_username u = username \<or> u_email u = email) (users d)
      then (Inl IntegrityError, d)
      else
        (let i = next_rowid (users_seq d) (map u_id (users d))
         in (Inr (sint i),
             d\<lparr>users := users d @
                  [user_row i ts username email password_hash salt first_name last_name],
               users_seq := i\<rparr>)))"

text \<open>
  \<^verbatim>\<open>SELECT id FROM roles WHERE name = ?\<close>, then \<^verbatim>\<open>fetchone()\<close> and \<^verbatim>\<open>role_row['id']\<close>
\<close>

definition select_role_id :: "db \<Rightarrow> string \<Rightarrow> int option" where
  "select_role_id d role_name =
     map_option (\<lambda>r. sint (r_id r)) (find (\<lambda>r. r_name r = role_name) (roles d))"

text \<open>
  \<^verbatim>\<open>INSERT OR REPLACE INTO user_roles (user_id, role_id, assigned_by)\<close>. The connection runs
  with \<^verbatim>\<open>PRAGMA foreign_keys = ON\<close>: the three columns must name rows of \<open>users\<close> and
  \<open>roles\<close>. \<^verbatim>\<open>REPLACE\<close> deletes the rows holding the primary key \<open>(user_id, role_id)\<close>
  before it inserts the new one.
\<close>

definition user_role_row :: "int64 \<Rightarrow> int64 \<Rightarrow> int64 \<Rightarrow> datetime \<Rightarrow> user_role" where
  "user_role_row user_id role_id assigned_by ts =
     \<lparr>ur_user_id = user_id, ur_role_id = role_id, ur_assigned_by = Some assigned_by,
      ur_assigned_at = ts, ur_expires_at = None\<rparr>"

definition same_pair :: "int64 \<Rightarrow> int64 \<Rightarrow> user_role \<Rightarrow> bool" where
  "same_pair user_id role_id r = (ur_user_id r = user_id \<and> ur_role_id r = role_id)"

definition insert_or_replace_user_role ::
  "datetime \<Rightarrow> db \<Rightarrow> int \<Rightarrow> int \<Rightarrow> int \<Rightarrow> (error + unit) \<times> db" where
  "insert_or_replace_user_role ts d user_id role_id assigned_by =
     (case bind_int user_id of
        Inl e \<Rightarrow> (Inl e, d)
      | Inr u \<Rightarrow>
          (case bind_int role_id of
             Inl e \<Rightarrow> (Inl e, d)
           | Inr r \<Rightarrow>
               (case bind_int assigned_by of
                  Inl e \<Rightarrow> (Inl e, d)
                | Inr a \<Rightarrow>
                    if user_exists d user_id \<and> role_exists d role_id \<and>
                       user_exists d assigned_by
                    then (Inr (),
                          d\<lparr>user_roles :=
                               filter (\<lambda>x. \<not> same_pair u r x) (user_roles d) @
                               [user_role_row u r a ts]\<rparr>)
                    else (Inl IntegrityError, d))))"

text \<open>
  \<^verbatim>\<open>INSERT INTO user_security_logs (user_id, event_type, ip_address, user_agent, success,
  failure_reason, metadata)\<close>; \<open>user_id\<close> is null or names a row of \<open>users\<close>. The metadata
  is the text \<^verbatim>\<open>json.dumps\<close> returned, or null.
\<close>

definition log_row ::
  "int64 \<Rightarrow> datetime \<Rightarrow> int64 option \<Rightarrow> string \<Rightarrow> string option \<Rightarrow> string option \<Rightarrow> bool
     \<Rightarrow> string option \<Rightarrow> string option \<Rightarrow> security_log" where
  "log_row i ts user_id event_type ip_address user_agent success failure_reason
       metadata_json =
     \<lparr>l_id = i, l_user_id = user_id, l_event_type = event_type, l_ip_address = ip_address,
      l_user_agent = user_agent, l_success = success, l_failure_reason = failure_reason,
      l_metadata = metadata_json, l_created_at = ts\<rparr>"

definition insert_security_log ::
  "datetime \<Rightarrow> db \<Rightarrow> int option \<Rightarrow> pystr \<Rightarrow> pystr option \<Rightarrow> pystr option \<Rightarrow> bool
     \<Rightarrow> pystr option \<Rightarrow> string option \<Rightarrow> (error + unit) \<times> db" where
  "insert_security_log ts d user_id event_type ip_address user_agent success failure_reason
       metadata_json =
     (case bind_int_opt user_id of
        Inl e \<Rightarrow> (Inl e, d)
      | Inr u \<Rightarrow>
      (case bind_text event_type of
        Inl e \<Rightarrow> (Inl e, d)
      | Inr et \<Rightarrow>
      (case bind_text_opt ip_address of
        Inl e \<Rightarrow> (Inl e, d)
      | Inr ip \<Rightarrow>
      (case bind_text_opt user_agent of
        Inl e \<Rightarrow> (Inl e, d)
      | Inr ua \<Rightarrow>
      (case bind_text_opt failure_reason of
        Inl e \<Rightarrow> (Inl e, d)
      | Inr fr \<Rightarrow>
          if (case user_id of None \<Rightarrow> True | Some i \<Rightarrow> user_exists d i)
          then
            (let i = next_rowid (user_security_logs_seq d) (map l_id (user_security_logs d))
             in (Inr (),
                 d\<lparr>user_security_logs := user_security_logs d @
                      [log_row i ts u et ip ua success fr metadata_json],
                   user_security_logs_seq := i\<rparr>))
          else (Inl IntegrityError, d))))))"

text \<open>
  \<^verbatim>\<open>INSERT INTO user_sessions (id, user_id, device_info, ip_address, expires_at)\<close>; \<open>id\<close>
  is the primary key and \<open>user_id\<close> names a row of \<open>users\<close>.
\<close>

definition session_row ::
  "string \<Rightarrow> int64 \<Rightarrow> string option \<Rightarrow> string option \<Rightarrow> datetime \<Rightarrow> datetime \<Rightarrow> session" where
  "session_row session_id user_id device_info ip_address expires_at ts =
     \<lparr>s_id = session_id, s_user_id = user_id, s_device_info = device_info,
      s_ip_address = ip_address, s_is_active = True, s_expires_at = expires_at,
      s_created_at = ts, s_last_accessed_at = ts\<rparr>"

definition insert_session ::
  "datetime \<Rightarrow> db \<Rightarrow> string \<Rightarrow> int \<Rightarrow> string option \<Rightarrow> string option \<Rightarrow> datetime
     \<Rightarrow> (error + unit) \<times> db" where
  "insert_session ts d session_id user_id device_info ip_address expires_at =
     (case bind_int user_id of
        Inl e \<Rightarrow> (Inl e, d)
      | Inr u \<Rightarrow>
          if session_id \<in> set (map s_id (user_sessions d)) \<or> \<not> user_exists d user_id
          then (Inl IntegrityError, d)
          else (Inr (),
                d\<lparr>user_sessions := user_sessions d @
                     [session_row session_id u device_info ip_address expires_at ts]\<rparr>))"

text \<open>\<^verbatim>\<open>UPDATE users SET last_login_at = CURRENT_TIMESTAMP WHERE id = ?\<close>\<close>

definition update_last_login :: "datetime \<Rightarrow> db \<Rightarrow> int \<Rightarrow> (error + unit) \<times> db" where
  "update_last_login ts d user_id =
     (case bind_int user_id of
        Inl e \<Rightarrow> (Inl e, d)
      | Inr i \<Rightarrow>
          (Inr (),
           d\<lparr>users := map (\<lambda>u. if u_id u = i then u\<lparr>u_last_login_at := Some ts\<rparr> else u)
                           (users d)\<rparr>))"

text \<open>\<^verbatim>\<open>INSERT OR IGNORE INTO roles (name, description)\<close>\<close>

definition insert_or_ignore_role :: "datetime \<Rightarrow> db \<Rightarrow> string \<times> string \<Rightarrow> db" where
  "insert_or_ignore_role ts d nd =
     (let i = next_rowid (roles_seq d) (map r_id (roles d))
      in if list_ex (\<lambda>r. r_name r = fst nd) (roles d)
         then d\<lparr>roles_seq := i\<rparr>
         else d\<lparr>roles := roles d @
                   [\<lparr>r_id = i, r_name = fst nd, r_description = Some (snd nd),
                     r_is_active = True, r_created_at = ts\<rparr>],
                 roles_seq := i\<rparr>)"

text \<open>\<^verbatim>\<open>INSERT OR IGNORE INTO permissions (name, description, resource, action)\<close>\<close>

definition insert_or_ignore_permission ::
  "datetime \<Rightarrow> db \<Rightarrow> string \<times> string \<times> string \<times> string \<Rightarrow> db" where
  "insert_or_ignore_permission ts d perm =
     (case perm of (perm_name, description, resource, action) \<Rightarrow>
        (let i = next_rowid (permissions_seq d) (map p_id (permissions d))
         in if list_ex (\<lambda>p. p_name p = perm_name) (permissions d)
            then d\<lparr>permissions_seq := i\<rparr>
            else d\<lparr>permissions := permissions d @
                      [\<lparr>p_id = i, p_name = perm_name, p_description = Some description,
                        p_resource = Some resource, p_action = Some action,
                        p_created_at = ts\<rparr>],
                    permissions_seq := i\<rparr>))"

section \<open>The operations of \<^verbatim>\<open>DatabaseManager\<close>\<close>

text \<open>
  An operation takes the environment of the call and the database, and returns what the
  Python method returns or raises (\<open>Inl\<close>) together with the database it leaves: the
  statements a method has committed stay committed when it raises later.
\<close>

subsection \<open>\<^verbatim>\<open>create_default_roles_and_permissions\<close>\<close>

definition default_roles :: "(string \<times> string) list" where
  "default_roles =
     [(''admin'', ''Full system administrator''),
      (''moderator'', ''Content moderation privileges''),
      (''user'', ''Standard user privileges''),
      (''premium_user'', ''Premium user with extended features'')]"

definition default_permissions :: "(string \<times> string \<times> string \<times> string) list" where
  "default_permissions =
     [(''create_posts'', ''Create new posts'', ''posts'', ''create''),
      (''edit_posts'', ''Edit posts'', ''posts'', ''update''),
      (''delete_posts'', ''Delete posts'', ''posts'', ''delete''),
      (''view_posts'', ''View posts'', ''posts'', ''read''),
      (''manage_users'', ''Manage user accounts'', ''users'', ''manage''),
      (''view_profiles'', ''View user profiles'', ''users'', ''read''),
      (''take_personality_test'', ''Take personality assessments'', ''results'', ''create''),
      (''view_results'', ''View personality results'', ''results'', ''read'')]"

definition create_default_roles_and_permissions :: "'v env \<Rightarrow> db \<Rightarrow> db" where
  "create_default_roles_and_permissions env d =
     foldl (insert_or_ignore_permission (current_timestamp env))
       (foldl (insert_or_ignore_role (current_timestamp env)) d default_roles)
       default_permissions"

subsection \<open>\<^verbatim>\<open>hash_password\<close> and \<^verbatim>\<open>verify_password\<close>\<close>

definition hash_password :: "'v env \<Rightarrow> string \<Rightarrow> string option \<Rightarrow> string \<times> string" where
  "hash_password env password salt =
     (let salt' = (case salt of None \<Rightarrow> token_hex env | Some s \<Rightarrow> s);
          password_hash =
            pbkdf2_hmac_sha256 (encode_utf8 password) (encode_utf8 salt') 100000
      in (hex password_hash, salt'))"

definition verify_password :: "'v env \<Rightarrow> string \<Rightarrow> string \<Rightarrow> string option \<Rightarrow> bool" where
  "verify_password env password stored_hash salt =
     (fst (hash_password env password salt) = stored_hash)"

subsection \<open>\<^verbatim>\<open>log_security_event\<close>\<close>

text \<open>
  \<^verbatim>\<open>metadata_json = json.dumps(metadata) if metadata else None\<close>: a dictionary is true
  when it has an item.
\<close>

definition metadata_json :: "'v env \<Rightarrow> (string \<times> 'v) list option \<Rightarrow> error + string option" where
  "metadata_json env metadata =
     (case metadata of
        None \<Rightarrow> Inr None
      | Some md \<Rightarrow>
          if md \<noteq> [] then (case json_dumps env md of Inl e \<Rightarrow> Inl e | Inr s \<Rightarrow> Inr (Some s))
          else Inr None)"

definition log_security_event ::
  "'v env \<Rightarrow> db \<Rightarrow> int option \<Rightarrow> pystr \<Rightarrow> pystr option \<Rightarrow> pystr option \<Rightarrow> bool
     \<Rightarrow> pystr option \<Rightarrow> (string \<times> 'v) list option \<Rightarrow> (error + unit) \<times> db" where
  "log_security_event env d user_id event_type ip_address user_agent success failure_reason
       metadata =
     (case metadata_json env metadata of
        Inl e \<Rightarrow> (Inl e, d)
      | Inr mj \<Rightarrow>
          insert_security_log (current_timestamp env) d user_id event_type ip_address
            user_agent success failure_reason mj)"

subsection \<open>\<^verbatim>\<open>assign_role_to_user\<close>\<close>

text \<open>
  The method catches every \<^verbatim>\<open>sqlite3.Error\<close> and returns \<^verbatim>\<open>False\<close>; any other exception
  passes to the caller. The role name is the parameter of the \<^verbatim>\<open>SELECT\<close>, inside the
  \<^verbatim>\<open>try\<close> block.
\<close>

definition except_sqlite3_Error :: "error \<Rightarrow> db \<Rightarrow> (error + bool) \<times> db" where
  "except_sqlite3_Error e d = (if is_sqlite3_Error e then (Inr False, d) else (Inl e, d))"

definition assign_role_to_user ::
  "'v env \<Rightarrow> db \<Rightarrow> int \<Rightarrow> pystr \<Rightarrow> int \<Rightarrow> (error + bool) \<times> db" where
  "assign_role_to_user env d user_id role_name assigned_by =
     (case bind_text role_name of
        Inl e \<Rightarrow> except_sqlite3_Error e d
      | Inr name \<Rightarrow>
          (case select_role_id d name of
             None \<Rightarrow> (Inr False, d)
           | Some role_id \<Rightarrow>
               (case insert_or_replace_user_role (current_timestamp env) d user_id role_id
                       assigned_by of
                  (Inl e, d') \<Rightarrow> except_sqlite3_Error e d'
                | (Inr u, d') \<Rightarrow> (Inr True, d'))))"

subsection \<open>\<^verbatim>\<open>create_user\<close>\<close>

text \<open>
  The \<^verbatim>\<open>try\<close> block spans the insert, the role assignment and the log entry;
  \<^verbatim>\<open>except sqlite3.IntegrityError\<close> turns that exception into the result \<^verbatim>\<open>None\<close> and
  lets any other pass. The result of the role assignment is not looked at.
\<close>

definition except_IntegrityError :: "error \<Rightarrow> db \<Rightarrow> (error + int option) \<times> db" where
  "except_IntegrityError e d = (if e = IntegrityError then (Inr None, d) else (Inl e, d))"

definition create_user ::
  "'v env \<Rightarrow> db \<Rightarrow> string \<Rightarrow> string \<Rightarrow> string \<Rightarrow> string option \<Rightarrow> string option
     \<Rightarrow> (error + int option) \<times> db" where
  "create_user env d username email password first_name last_name =
     (case hash_password env password None of (password_hash, salt) \<Rightarrow>
        (case insert_user (current_timestamp env) d username email password_hash salt
                first_name last_name of
           (Inl e, d1) \<Rightarrow> except_IntegrityError e d1
         | (Inr user_id, d1) \<Rightarrow>
             (case assign_role_to_user env d1 user_id (Str ''user'') user_id of
                (Inl e, d2) \<Rightarrow> except_IntegrityError e d2
              | (Inr assigned, d2) \<Rightarrow>
                  (case log_security_event env d2 (Some user_id) (Str ''user_created'') None
                          None True None None of
                     (Inl e, d3) \<Rightarrow> except_IntegrityError e d3
                   | (Inr u, d3) \<Rightarrow> (Inr (Some user_id), d3)))))"

subsection \<open>\<^verbatim>\<open>create_session\<close>\<close>

definition create_session ::
  "'v env \<Rightarrow> db \<Rightarrow> int \<Rightarrow> string option \<Rightarrow> string option \<Rightarrow> int \<Rightarrow> (error + string) \<times> db" where
  "create_session env d user_id device_info ip_address duration_hours =
     (let session_id = uuid4 env
      in case timedelta_hours duration_hours of
           Inl e \<Rightarrow> (Inl e, d)
         | Inr delta \<Rightarrow>
             (case datetime_add (datetime_now env) delta of
                Inl e \<Rightarrow> (Inl e, d)
              | Inr expires_at \<Rightarrow>
                  (case insert_session (current_timestamp env) d session_id user_id
                          device_info ip_address expires_at of
                     (Inl e, d1) \<Rightarrow> (Inl e, d1)
                   | (Inr u, d1) \<Rightarrow>
                       (case update_last_login (current_timestamp env) d1 user_id of
                          (Inl e, d2) \<Rightarrow> (Inl e, d2)
                        | (Inr u', d2) \<Rightarrow>
                            (case log_security_event env d2 (Some user_id) (Str ''login'')
                                    (map_option Str ip_address) None True None None of
                               (Inl e, d3) \<Rightarrow> (Inl e, d3)
                             | (Inr u'', d3) \<Rightarrow> (Inr session_id, d3))))))"


subsection \<open>\<^verbatim>\<open>get_user_by_email\<close> and \<^verbatim>\<open>authenticate_user\<close>\<close>

text \<open>
  \<^verbatim>\<open>SELECT * FROM users WHERE email = ? AND is_active = 1 AND is_deleted = 0\<close>, then
  \<^verbatim>\<open>fetchone()\<close>: the first row that matches, if any. \<^verbatim>\<open>user['id']\<close> reads the id of the
  row as a Python \<^verbatim>\<open>int\<close>.
\<close>

definition get_user_by_email :: "db \<Rightarrow> string \<Rightarrow> user option" where
  "get_user_by_email d email =
     find (\<lambda>u. u_email u = email \<and> u_is_active u \<and> \<not> u_is_deleted u) (users d)"

definition authenticate_user ::
  "'v env \<Rightarrow> db \<Rightarrow> string \<Rightarrow> string \<Rightarrow> (error + user option) \<times> db" where
  "authenticate_user env d email password =
     (case get_user_by_email d email of
        None \<Rightarrow>
          (case log_security_event env d None (Str ''login_failed'') None None True
                  (Some (Str ''User not found'')) None of
             (Inl e, d') \<Rightarrow> (Inl e, d')
           | (Inr u, d') \<Rightarrow> (Inr None, d'))
      | Some user \<Rightarrow>
          if verify_password env password (u_password_hash user) (u_salt user)
          then (Inr (Some user), d)
          else
            (case log_security_event env d (Some (sint (u_id user))) (Str ''login_failed'')
                    None None True (Some (Str ''Invalid password'')) None of
               (Inl e, d') \<Rightarrow> (Inl e, d')
             | (Inr u, d') \<Rightarrow> (Inr None, d')))"

subsection \<open>\<^verbatim>\<open>cleanup_expired_sessions\<close>\<close>

text \<open>
  \<^verbatim>\<open>DELETE FROM user_sessions WHERE expires_at < CURRENT_TIMESTAMP\<close>; the result is the
  cursor's \<^verbatim>\<open>rowcount\<close>, the number of rows deleted.
\<close>

definition expired :: "datetime \<Rightarrow> session \<Rightarrow> bool" where
  "expired ts s = (s_expires_at s < ts)"

definition cleanup_expired_sessions :: "'v env \<Rightarrow> db \<Rightarrow> int \<times> db" where
  "cleanup_expired_sessions env d =
     (int (length (filter (expired (current_timestamp env)) (user_sessions d))),
      d\<lparr>user_sessions := filter (\<lambda>s. \<not> expired (current_timestamp env) s) (user_sessions d)\<rparr>)"

section \<open>Sample data\<close>

text \<open>
  Three hosts at 2024-01-01 10:00:00 UTC. The first is two hours ahead of UTC and reads its
  clock a quarter of a second into the second; \<^verbatim>\<open>json.dumps({"attempt": 1})\<close> is
  \<^verbatim>\<open>'{"attempt": 1}'\<close>. The second keeps UTC and reads its clock on the second. The third
  is five hours behind UTC.
\<close>

definition sample_env :: "int env" where
  \<open>sample_env =
     \<lparr>token_hex = ''0e8741cede4a4f29e692697be424b2abcf50e55a2d420f14fc6c399d817f56e5'',
      uuid4 = ''87acbe01-776b-416d-bbe0-9e82855bc941'',
      datetime_now = 63839707200250000,
      current_timestamp = 63839700000000000,
      json_dumps = (\<lambda>md. if md = [(''attempt'', 1)] then Inr ''{"attempt": 1}''
                         else Inl TypeError)\<rparr>\<close>


definition behind_env :: "int env" where
  "behind_env = sample_env\<lparr>datetime_now := 63839682000000000\<rparr>"

definition empty_db :: db where
  "empty_db =
     \<lparr>users = [], users_seq = 0, user_sessions = [], roles = [], roles_seq = 0,
      permissions = [], permissions_seq = 0, user_roles = [], user_security_logs = [],
      user_security_logs_seq = 0\<rparr>"

text \<open>A fresh database file after \<^verbatim>\<open>DatabaseManager.__init__\<close>.\<close>

definition seeded_db :: db where
  "seeded_db = create_default_roles_and_permissions sample_env empty_db"

text \<open>The first sample user of the demonstration at the end of \<^verbatim>\<open>db.py\<close>.\<close>

definition john_db :: db where
  "john_db =
     snd (create_user sample_env seeded_db ''johndoe'' ''john@example.com'' ''password123''
            (Some ''John'') (Some ''Doe''))"

definition john_row :: user where
  "john_row =
     user_row 1 (current_timestamp sample_env) ''johndoe'' ''john@example.com''
       (fst (hash_password sample_env ''password123'' None)) (token_hex sample_env)
       (Some ''John'') (Some ''Doe'')"

section \<open>Password hashing\<close>

text \<open>
  HMAC reads its key only through \<open>hmac_key\<close>, so PBKDF2 derives the same bytes from two
  passwords that \<open>hmac_key\<close> maps to the same block.
\<close>

lemma hmac_sha256_key_cong: "hmac_key k = hmac_key k' \<Longrightarrow> hmac_sha256 k m = hmac_sha256 k' m"
  by (simp add: hmac_sha256_def)

lemma pbkdf2_rounds_key_cong:
  "hmac_key k = hmac_key k' \<Longrightarrow> pbkdf2_rounds k n u t = pbkdf2_rounds k' n u t"
proof (induction n arbitrary: u t)
  case 0
  show ?case by simp
next
  case (Suc n)
  have "hmac_sha256 k u = hmac_sha256 k' u"
    using Suc.prems by (rule hmac_sha256_key_cong)
  then show ?case
    using Suc.IH [OF Suc.prems] by (simp add: Let_def)
qed

lemma pbkdf2_key_cong:
  assumes "hmac_key k = hmac_key k'"
  shows "pbkdf2_hmac_sha256 k s n = pbkdf2_hmac_sha256 k' s n"
proof -
  have "hmac_sha256 k (s @ [0, 0, 0, 1]) = hmac_sha256 k' (s @ [0, 0, 0, 1])"
    using assms by (rule hmac_sha256_key_cong)
  then show ?thesis
    unfolding pbkdf2_hmac_sha256_def Let_def
    using pbkdf2_rounds_key_cong [OF assms] by simp
qed

lemma hmac_key_trailing_zero:
  assumes "length k < 64"
  shows "hmac_key (k @ [0]) = hmac_key k"
proof -
  have "replicate (64 - length k) (0::byte) = 0 # replicate (64 - Suc (length k)) 0"
    using assms by (simp add: Suc_diff_Suc flip: replicate_Suc)
  then show ?thesis
    using assms by (simp add: hmac_key_def)
qed

lemma hex_digit_inj: "i < 16 \<Longrightarrow> j < 16 \<Longrightarrow> hex_digit i = hex_digit j \<Longrightarrow> i = j"
proof -
  have d: "distinct ''0123456789abcdef''" by simp
  have l: "length ''0123456789abcdef'' = 16" by simp
  show "i < 16 \<Longrightarrow> j < 16 \<Longrightarrow> hex_digit i = hex_digit j \<Longrightarrow> i = j"
    unfolding hex_digit_def using nth_eq_iff_index_eq [OF d, of i j] l by simp
qed

lemma hex_byte_inj:
  fixes b c :: byte
  assumes "hex_digit (unat b div 16) = hex_digit (unat c div 16)"
    and "hex_digit (unat b mod 16) = hex_digit (unat c mod 16)"
  shows "b = c"
proof -
  have bb: "unat b < 256" and cc: "unat c < 256"
    using unsigned_less [of b] unsigned_less [of c] by simp_all
  have d: "unat b div 16 = unat c div 16"
    using hex_digit_inj [of "unat b div 16" "unat c div 16"] assms(1) bb cc by simp
  have m: "unat b mod 16 = unat c mod 16"
    using hex_digit_inj [of "unat b mod 16" "unat c mod 16"] assms(2) by simp
  have "unat b = unat c"
    using d m by (metis div_mult_mod_eq)
  then show ?thesis by (simp add: word_unat_eq_iff)
qed

lemma hex_inj: "hex xs = hex ys \<Longrightarrow> xs = ys"
proof (induction xs arbitrary: ys)
  case Nil
  then show ?case by (cases ys) (simp_all add: hex_def)
next
  case (Cons x xs)
  then show ?case
    by (cases ys) (auto simp: hex_def dest: hex_byte_inj)
qed

lemma hex_eq_iff: "(hex xs = hex ys) = (xs = ys)"
proof
  assume "hex xs = hex ys"
  then show "xs = ys" by (rule hex_inj)
next
  assume "xs = ys"
  then show "hex xs = hex ys" by simp
qed

lemma hash_password_None:
  "hash_password env p None = hash_password env p (Some (token_hex env))"
  by (simp add: hash_password_def)

lemma snd_hash_password:
  "snd (hash_password env p salt) = (case salt of None \<Rightarrow> token_hex env | Some s \<Rightarrow> s)"
  by (simp add: hash_password_def Let_def)

lemma fst_hash_password:
  "fst (hash_password env p (Some s))
     = hex (pbkdf2_hmac_sha256 (encode_utf8 p) (encode_utf8 s) 100000)"
  by (simp add: hash_password_def Let_def)

lemma verify_password_iff:
  "verify_password env p2 (fst (hash_password env p (Some s))) (Some s)
   = (pbkdf2_hmac_sha256 (encode_utf8 p2) (encode_utf8 s) 100000
      = pbkdf2_hmac_sha256 (encode_utf8 p) (encode_utf8 s) 100000)"
  by (simp only: verify_password_def fst_hash_password hex_eq_iff)

lemma hash_password_fst_snd:
  "hash_password env p salt
     = (fst (hash_password env p (Some (snd (hash_password env p salt)))),
        snd (hash_password env p salt))"
  by (cases salt) (simp_all add: hash_password_def Let_def)

text \<open>
  Claim C2, as amended. For every password \<open>p\<close> and every salt that \<open>hash_password\<close> returns
  (the one passed in, or the generated one when none is passed), \<open>verify_password\<close> accepts
  \<open>p\<close> against the hash returned with that salt; and it accepts another password \<open>p2\<close>
  against that hash exactly when PBKDF2-HMAC-SHA256 derives the same 32 bytes from \<open>p2\<close> as
  from \<open>p\<close> under that salt.
\<close>

theorem C2_verify_password:
  "verify_password env p (fst (hash_password env p salt))
       (Some (snd (hash_password env p salt)))
   \<and> (verify_password env p2 (fst (hash_password env p salt))
          (Some (snd (hash_password env p salt)))
        = (pbkdf2_hmac_sha256 (encode_utf8 p2)
               (encode_utf8 (snd (hash_password env p salt))) 100000
           = pbkdf2_hmac_sha256 (encode_utf8 p)
               (encode_utf8 (snd (hash_password env p salt))) 100000))"
proof -
  have "fst (hash_password env p salt)
          = fst (hash_password env p (Some (snd (hash_password env p salt))))"
    using hash_password_fst_snd [of env p salt] by (metis fst_conv)
  then show ?thesis
    by (simp only: verify_password_iff simp_thms)
qed

text \<open>
  Claim C2 as stated fails: the password \<^verbatim>\<open>"a\x00"\<close> differs from \<^verbatim>\<open>"a"\<close> and verifies
  against the hash of \<^verbatim>\<open>"a"\<close>, because HMAC pads the shorter key with the same zero byte.
\<close>

theorem C2_counterexample:
  "''a'' \<noteq> [CHR ''a'', CHR 0x00] \<and>
   verify_password sample_env [CHR ''a'', CHR 0x00]
     (fst (hash_password sample_env ''a'' None))
     (Some (snd (hash_password sample_env ''a'' None)))"
proof -
  have e: "encode_utf8 [CHR ''a'', CHR 0x00] = encode_utf8 ''a'' @ [0]"
    by (simp add: encode_utf8_def)
  have "length (encode_utf8 ''a'') < 64" by (simp add: encode_utf8_def)
  then have "hmac_key (encode_utf8 [CHR ''a'', CHR 0x00]) = hmac_key (encode_utf8 ''a'')"
    unfolding e by (rule hmac_key_trailing_zero)
  then have "pbkdf2_hmac_sha256 (encode_utf8 [CHR ''a'', CHR 0x00]) (encode_utf8 (token_hex sample_env)) 100000
     = pbkdf2_hmac_sha256 (encode_utf8 ''a'') (encode_utf8 (token_hex sample_env)) 100000"
    by (rule pbkdf2_key_cong)
  then have "verify_password sample_env [CHR ''a'', CHR 0x00]
     (fst (hash_password sample_env ''a'' (Some (token_hex sample_env)))) (Some (token_hex sample_env))"
    by (simp only: verify_password_iff)
  then show ?thesis
    by (simp add: hash_password_None snd_hash_password)
qed

section \<open>The statements and the operations built from them\<close>

lemma in_int64_sint [simp]: "in_int64 (sint (w :: int64))"
  using sint_ge [of w] sint_lt [of w] by (simp add: in_int64_def)

lemma sint_word_of_int_in_range: "in_int64 i \<Longrightarrow> sint (word_of_int i :: int64) = i"
  by (simp add: in_int64_def sint_sbintrunc' signed_take_bit_int_eq_self)

lemma bind_int_sint [simp]: "bind_int (sint (w :: int64)) = Inr w"
  by (simp add: bind_int_def)

lemma bind_int_ok: "in_int64 i \<Longrightarrow> bind_int i = Inr (word_of_int i)"
  by (simp add: bind_int_def)

lemma bind_int_overflow: "\<not> in_int64 i \<Longrightarrow> bind_int i = Inl OverflowError"
  by (simp add: bind_int_def)

lemma user_exists_in_int64: "user_exists d i \<Longrightarrow> in_int64 i"
  by (auto simp: user_exists_def)

lemma role_exists_in_int64: "role_exists d i \<Longrightarrow> in_int64 i"
  by (auto simp: role_exists_def)


lemma bind_text_Str [simp]: "bind_text (Str s) = Inr s"
  by (simp add: bind_text_def)

lemma bind_text_Unencodable [simp]: "bind_text Unencodable = Inl UnicodeEncodeError"
  by (simp add: bind_text_def)

lemma bind_text_opt_Str [simp]: "bind_text_opt (map_option Str v) = Inr v"
  by (cases v) (simp_all add: bind_text_opt_def)

lemma bind_text_opt_None [simp]: "bind_text_opt None = Inr None"
  by (simp add: bind_text_opt_def)

lemma bind_text_opt_Unencodable [simp]:
  "bind_text_opt (Some Unencodable) = Inl UnicodeEncodeError"
  by (simp add: bind_text_opt_def)

lemma bind_text_cases:
  "bind_text t = Inl UnicodeEncodeError \<or> (\<exists>s. t = Str s \<and> bind_text t = Inr s)"
  by (cases t) simp_all

lemma bind_text_opt_cases:
  "bind_text_opt v = Inl UnicodeEncodeError \<or> (\<exists>s. v = map_option Str s \<and> bind_text_opt v = Inr s)"
proof (cases v)
  case None
  then show ?thesis by simp
next
  case (Some t)
  show ?thesis
  proof (cases t)
    case (Str s)
    then have "v = map_option Str (Some s)" using Some by simp
    then show ?thesis using bind_text_opt_Str [of "Some s"] by metis
  next
    case Unencodable
    then show ?thesis using Some by simp
  qed
qed

lemma fold_max_ge: "seq \<le> fold max ids (seq::int)"
  by (induction ids arbitrary: seq) (auto intro: order_trans [OF max.cobounded2])

lemma fold_max_mem: "x \<in> set ids \<Longrightarrow> x \<le> fold max ids (seq::int)"
proof (induction ids arbitrary: seq)
  case Nil
  then show ?case by simp
next
  case (Cons a ids)
  show ?case
  proof (cases "x = a")
    case True
    have "a \<le> max a seq" by simp
    also have "\<dots> \<le> fold max ids (max a seq)" by (rule fold_max_ge)
    finally show ?thesis using True by simp
  next
    case False
    with Cons.prems have "x \<in> set ids" by simp
    then show ?thesis using Cons.IH by simp
  qed
qed

text \<open>Below the largest 64-bit value the next key is new to the table.\<close>

lemma next_rowid_fresh:
  assumes "fold max (map sint ids) (sint seq) < 2 ^ 63 - 1"
  shows "next_rowid seq ids \<notin> set ids"
proof
  let ?m = "fold max (map sint ids) (sint seq)"
  assume "next_rowid seq ids \<in> set ids"
  then have "sint (next_rowid seq ids) \<in> set (map sint ids)" by simp
  then have le: "sint (next_rowid seq ids) \<le> ?m" by (rule fold_max_mem)
  have "sint seq \<le> ?m" by (rule fold_max_ge)
  then have lo: "- (2 ^ 63) \<le> ?m + 1" using sint_ge [of seq] by simp
  have hi: "?m + 1 < 2 ^ 63" using assms by simp
  have "in_int64 (?m + 1)" using lo hi by (simp only: in_int64_def simp_thms)
  then have "sint (word_of_int (?m + 1) :: int64) = ?m + 1"
    by (rule sint_word_of_int_in_range)
  then have "sint (next_rowid seq ids) = ?m + 1"
    by (simp only: next_rowid_def)
  then show False using le by simp
qed

lemma insert_user_dup:
  "\<exists>u\<in>set (users d). u_username u = username \<or> u_email u = email \<Longrightarrow>
   insert_user ts d username email h s fn ln = (Inl IntegrityError, d)"
  by (simp add: insert_user_def list_ex_iff)

lemma insert_user_fresh:
  "\<forall>u\<in>set (users d). u_username u \<noteq> username \<and> u_email u \<noteq> email \<Longrightarrow>
   insert_user ts d username email h s fn ln =
     (Inr (sint (next_rowid (users_seq d) (map u_id (users d)))),
      d\<lparr>users := users d @ [user_row (next_rowid (users_seq d) (map u_id (users d))) ts
                               username email h s fn ln],
        users_seq := next_rowid (users_seq d) (map u_id (users d))\<rparr>)"
  by (auto simp add: insert_user_def list_ex_iff Let_def)

lemma metadata_json_None [simp]: "metadata_json env None = Inr None"
  by (simp add: metadata_json_def)

lemma metadata_json_Nil [simp]: "metadata_json env (Some []) = Inr None"
  by (simp add: metadata_json_def)

lemma bind_int_opt_exists:
  "(case user_id of None \<Rightarrow> True | Some i \<Rightarrow> user_exists d i) \<Longrightarrow>
   bind_int_opt user_id = Inr (map_option word_of_int user_id)"
  by (cases user_id) (auto simp: bind_int_opt_def bind_int_ok dest: user_exists_in_int64)

lemma log_security_event_ok:
  "metadata_json env metadata = Inr mj \<Longrightarrow>
   (case user_id of None \<Rightarrow> True | Some i \<Rightarrow> user_exists d i) \<Longrightarrow>
   log_security_event env d user_id (Str event_type) (map_option Str ip)
       (map_option Str ua) success (map_option Str reason) metadata =
     (Inr (),
      d\<lparr>user_security_logs := user_security_logs d @
           [log_row (next_rowid (user_security_logs_seq d) (map l_id (user_security_logs d)))
              (current_timestamp env) (map_option word_of_int user_id) event_type ip ua
              success reason mj],
        user_security_logs_seq :=
           next_rowid (user_security_logs_seq d) (map l_id (user_security_logs d))\<rparr>)"
  by (simp add: log_security_event_def insert_security_log_def Let_def bind_int_opt_exists)

lemma log_security_event_no_metadata:
  "(case user_id of None \<Rightarrow> True | Some i \<Rightarrow> user_exists d i) \<Longrightarrow>
   log_security_event env d user_id (Str event_type) (map_option Str ip)
       (map_option Str ua) success (map_option Str reason) None =
     (Inr (),
      d\<lparr>user_security_logs := user_security_logs d @
           [log_row (next_rowid (user_security_logs_seq d) (map l_id (user_security_logs d)))
              (current_timestamp env) (map_option word_of_int user_id) event_type ip ua
              success reason None],
        user_security_logs_seq :=
           next_rowid (user_security_logs_seq d) (map l_id (user_security_logs d))\<rparr>)"
  by (rule log_security_event_ok [OF metadata_json_None])

lemma log_security_event_overflow:
  "metadata_json env metadata = Inr mj \<Longrightarrow> \<not> in_int64 i \<Longrightarrow>
   log_security_event env d (Some i) event_type ip ua success reason metadata =
     (Inl OverflowError, d)"
  by (simp add: log_security_event_def insert_security_log_def bind_int_opt_def
      bind_int_overflow)

lemma log_security_event_unencodable:
  assumes "metadata_json env metadata = Inr mj"
    and "case user_id of None \<Rightarrow> True | Some i \<Rightarrow> in_int64 i"
    and "event_type = Unencodable \<or> ip = Some Unencodable \<or> ua = Some Unencodable \<or>
         reason = Some Unencodable"
  shows "log_security_event env d user_id event_type ip ua success reason metadata =
     (Inl UnicodeEncodeError, d)"
proof -
  obtain u where u: "bind_int_opt user_id = Inr u"
    using assms(2) by (cases user_id) (simp_all add: bind_int_opt_def bind_int_ok)
  show ?thesis
    using assms(1,3) u bind_text_cases [of event_type] bind_text_opt_cases [of ip]
      bind_text_opt_cases [of ua] bind_text_opt_cases [of reason]
    by (auto simp: log_security_event_def insert_security_log_def)
qed

lemma log_security_event_fk:
  "metadata_json env metadata = Inr mj \<Longrightarrow> in_int64 i \<Longrightarrow> \<not> user_exists d i \<Longrightarrow>
   log_security_event env d (Some i) (Str event_type) (map_option Str ip)
       (map_option Str ua) success (map_option Str reason) metadata =
     (Inl IntegrityError, d)"
  by (simp add: log_security_event_def insert_security_log_def bind_int_opt_def bind_int_ok)

lemma log_security_event_dumps:
  "metadata_json env metadata = Inl e \<Longrightarrow>
   log_security_event env d user_id event_type ip ua success reason metadata = (Inl e, d)"
  by (simp add: log_security_event_def)

lemma select_role_id_mem:
  "select_role_id d n = Some rid \<Longrightarrow> role_exists d rid"
  by (auto simp: select_role_id_def role_exists_def find_Some_iff)

lemma assign_role_unknown:
  "select_role_id d n = None \<Longrightarrow> assign_role_to_user env d user_id (Str n) by_id = (Inr False, d)"
  by (simp add: assign_role_to_user_def)

lemma assign_role_ok:
  "select_role_id d n = Some rid \<Longrightarrow> user_exists d user_id \<Longrightarrow> user_exists d by_id \<Longrightarrow>
   assign_role_to_user env d user_id (Str n) by_id =
     (Inr True,
      d\<lparr>user_roles :=
           filter (\<lambda>r. \<not> same_pair (word_of_int user_id) (word_of_int rid) r) (user_roles d) @
           [user_role_row (word_of_int user_id) (word_of_int rid) (word_of_int by_id)
              (current_timestamp env)]\<rparr>)"
  using select_role_id_mem [of d n rid]
  by (simp add: assign_role_to_user_def insert_or_replace_user_role_def bind_int_ok
      user_exists_in_int64 role_exists_in_int64)

lemma assign_role_fk:
  "select_role_id d n = Some rid \<Longrightarrow> in_int64 user_id \<Longrightarrow> in_int64 by_id \<Longrightarrow>
   \<not> (user_exists d user_id \<and> user_exists d by_id) \<Longrightarrow>
   assign_role_to_user env d user_id (Str n) by_id = (Inr False, d)"
  using select_role_id_mem [of d n rid]
  by (auto simp add: assign_role_to_user_def insert_or_replace_user_role_def bind_int_ok
      role_exists_in_int64 except_sqlite3_Error_def is_sqlite3_Error_def)

lemma assign_role_unencodable:
  "assign_role_to_user env d user_id Unencodable by_id = (Inl UnicodeEncodeError, d)"
  by (simp add: assign_role_to_user_def except_sqlite3_Error_def is_sqlite3_Error_def)

lemma assign_role_overflow:
  "select_role_id d n = Some rid \<Longrightarrow> \<not> (in_int64 user_id \<and> in_int64 by_id) \<Longrightarrow>
   assign_role_to_user env d user_id (Str n) by_id = (Inl OverflowError, d)"
  using select_role_id_mem [of d n rid]
  by (auto simp add: assign_role_to_user_def insert_or_replace_user_role_def bind_int_def
      role_exists_in_int64 except_sqlite3_Error_def is_sqlite3_Error_def)

lemma select_role_id_users_irrelevant [simp]:
  "select_role_id (d\<lparr>users := us, users_seq := k\<rparr>) n = select_role_id d n"
  by (simp add: select_role_id_def)

lemma create_user_dup:
  assumes "\<exists>u\<in>set (users d). u_username u = username \<or> u_email u = email"
  shows "create_user env d username email password first_name last_name = (Inr None, d)"
  unfolding create_user_def
  by (simp add: insert_user_dup [OF assms] except_IntegrityError_def case_prod_beta)

lemma create_user_steps:
  assumes "insert_user (current_timestamp env) d username email
             (fst (hash_password env password None)) (snd (hash_password env password None))
             first_name last_name = (Inr uid, d1)"
    and "assign_role_to_user env d1 uid (Str ''user'') uid = (Inr assigned, d2)"
    and "log_security_event env d2 (Some uid) (Str ''user_created'') None None True None None
           = (Inr (), d3)"
  shows "create_user env d username email password first_name last_name
           = (Inr (Some uid), d3)"
  using assms by (simp add: create_user_def case_prod_beta)

lemma log_user_created:
  assumes "user_exists d (sint uid)"
  shows "log_security_event env d (Some (sint uid)) (Str ''user_created'') None None True
           None None =
     (Inr (),
      d\<lparr>user_security_logs := user_security_logs d @
           [log_row (next_rowid (user_security_logs_seq d) (map l_id (user_security_logs d)))
              (current_timestamp env) (Some uid) ''user_created'' None None True None None],
        user_security_logs_seq :=
           next_rowid (user_security_logs_seq d) (map l_id (user_security_logs d))\<rparr>)"
  using log_security_event_no_metadata [where user_id = "Some (sint uid)" and d = d
      and ip = None and ua = None and reason = None and env = env
      and event_type = "''user_created''" and success = True] assms
  by simp

lemma create_user_with_role:
  assumes fresh: "\<forall>u\<in>set (users d). u_username u \<noteq> username \<and> u_email u \<noteq> email"
    and role: "select_role_id d ''user'' = Some rid"
  shows "create_user env d username email password first_name last_name =
    (let uid = next_rowid (users_seq d) (map u_id (users d));
         lid = next_rowid (user_security_logs_seq d) (map l_id (user_security_logs d));
         ts = current_timestamp env;
         hp = hash_password env password None
     in (Inr (Some (sint uid)),
         d\<lparr>users := users d @
              [user_row uid ts username email (fst hp) (snd hp) first_name last_name],
           users_seq := uid,
           user_roles := filter (\<lambda>r. \<not> same_pair uid (word_of_int rid) r) (user_roles d) @
              [user_role_row uid (word_of_int rid) uid ts],
           user_security_logs := user_security_logs d @
              [log_row lid ts (Some uid) ''user_created'' None None True None None],
           user_security_logs_seq := lid\<rparr>))"
proof -
  let ?uid = "next_rowid (users_seq d) (map u_id (users d))"
  let ?ts = "current_timestamp env"
  let ?hp = "hash_password env password None"
  let ?d1 = "d\<lparr>users := users d @
              [user_row ?uid ?ts username email (fst ?hp) (snd ?hp) first_name last_name],
            users_seq := ?uid\<rparr>"
  let ?d2 = "?d1\<lparr>user_roles :=
              filter (\<lambda>r. \<not> same_pair ?uid (word_of_int rid) r) (user_roles ?d1) @
              [user_role_row ?uid (word_of_int rid) ?uid ?ts]\<rparr>"
  have i: "insert_user ?ts d username email (fst ?hp) (snd ?hp) first_name last_name
             = (Inr (sint ?uid), ?d1)"
    using fresh by (rule insert_user_fresh)
  have ex: "user_exists ?d1 (sint ?uid)"
    by (simp add: user_exists_def user_row_def)
  have r: "select_role_id ?d1 ''user'' = Some rid"
    using role by simp
  have a: "assign_role_to_user env ?d1 (sint ?uid) (Str ''user'') (sint ?uid) = (Inr True, ?d2)"
    using assign_role_ok [OF r ex ex, of env] by simp
  have ex2: "user_exists ?d2 (sint ?uid)"
    using ex by (simp add: user_exists_def)
  show ?thesis
    using create_user_steps [OF i a log_user_created [OF ex2]] by (simp add: Let_def)
qed

lemma create_user_without_role:
  assumes fresh: "\<forall>u\<in>set (users d). u_username u \<noteq> username \<and> u_email u \<noteq> email"
    and role: "select_role_id d ''user'' = None"
  shows "create_user env d username email password first_name last_name =
    (let uid = next_rowid (users_seq d) (map u_id (users d));
         lid = next_rowid (user_security_logs_seq d) (map l_id (user_security_logs d));
         ts = current_timestamp env;
         hp = hash_password env password None
     in (Inr (Some (sint uid)),
         d\<lparr>users := users d @
              [user_row uid ts username email (fst hp) (snd hp) first_name last_name],
           users_seq := uid,
           user_security_logs := user_security_logs d @
              [log_row lid ts (Some uid) ''user_created'' None None True None None],
           user_security_logs_seq := lid\<rparr>))"
proof -
  let ?uid = "next_rowid (users_seq d) (map u_id (users d))"
  let ?ts = "current_timestamp env"
  let ?hp = "hash_password env password None"
  let ?d1 = "d\<lparr>users := users d @
              [user_row ?uid ?ts username email (fst ?hp) (snd ?hp) first_name last_name],
            users_seq := ?uid\<rparr>"
  have i: "insert_user ?ts d username email (fst ?hp) (snd ?hp) first_name last_name
             = (Inr (sint ?uid), ?d1)"
    using fresh by (rule insert_user_fresh)
  have r: "select_role_id ?d1 ''user'' = None"
    using role by simp
  have a: "assign_role_to_user env ?d1 (sint ?uid) (Str ''user'') (sint ?uid) = (Inr False, ?d1)"
    using r by (rule assign_role_unknown)
  have ex: "user_exists ?d1 (sint ?uid)"
    by (simp add: user_exists_def user_row_def)
  show ?thesis
    using create_user_steps [OF i a log_user_created [OF ex]] by (simp add: Let_def)
qed

lemma seeded_db_users: "users seeded_db = []" and seeded_db_users_seq: "users_seq seeded_db = 0"
  and seeded_db_role_user: "select_role_id seeded_db ''user'' = Some 3"
  and seeded_db_role_admin: "select_role_id seeded_db ''admin'' = Some 1"
  and seeded_db_logs: "user_security_logs seeded_db = []"
  and seeded_db_sessions: "user_sessions seeded_db = []"
  by (simp_all add: seeded_db_def create_default_roles_and_permissions_def default_roles_def
      default_permissions_def insert_or_ignore_role_def insert_or_ignore_permission_def
      next_rowid_def empty_db_def Let_def select_role_id_def)

lemma john_db_eq:
  "john_db =
     seeded_db\<lparr>users := [john_row], users_seq := 1,
       user_roles := [user_role_row 1 3 1 (current_timestamp sample_env)],
       user_security_logs :=
         [log_row 1 (current_timestamp sample_env) (Some 1) ''user_created'' None None True
            None None],
       user_security_logs_seq := 1\<rparr>"
proof -
  have fresh: "\<forall>u\<in>set (users seeded_db).
      u_username u \<noteq> ''johndoe'' \<and> u_email u \<noteq> ''john@example.com''"
    by (simp add: seeded_db_users)
  have ur: "user_roles seeded_db = []" and ls: "user_security_logs_seq seeded_db = 0"
    by (simp_all add: seeded_db_def create_default_roles_and_permissions_def default_roles_def
      default_permissions_def insert_or_ignore_role_def insert_or_ignore_permission_def
      next_rowid_def empty_db_def Let_def)
  show ?thesis
    unfolding john_db_def
    using create_user_with_role [OF fresh seeded_db_role_user, of sample_env "''password123''"
        "Some ''John''" "Some ''Doe''"]
    by (simp add: Let_def next_rowid_def seeded_db_users seeded_db_users_seq seeded_db_logs
        ur ls john_row_def snd_hash_password)
qed

lemma john_db_users: "users john_db = [john_row]"
  by (simp add: john_db_eq)

lemma john_db_roles: "select_role_id john_db ''admin'' = Some 1"
  using seeded_db_role_admin by (simp add: john_db_eq select_role_id_def)

lemma john_exists: "user_exists john_db 1"
  by (simp add: user_exists_def john_db_users john_row_def user_row_def)

lemma john_db_sessions: "user_sessions john_db = []"
  by (simp add: john_db_eq seeded_db_sessions)

section \<open>Creating users\<close>



lemma create_user_other_tables:
  assumes "\<forall>u\<in>set (users d). u_username u \<noteq> username \<and> u_email u \<noteq> email"
  shows "user_sessions (snd (create_user env d username email password first_name last_name))
           = user_sessions d"
    and "roles (snd (create_user env d username email password first_name last_name))
           = roles d"
    and "permissions (snd (create_user env d username email password first_name last_name))
           = permissions d"
proof -
  show "user_sessions (snd (create_user env d username email password first_name last_name))
           = user_sessions d"
    by (cases "select_role_id d ''user''")
      (simp_all add: create_user_without_role [OF assms] create_user_with_role [OF assms]
        Let_def)
  show "roles (snd (create_user env d username email password first_name last_name))
           = roles d"
    by (cases "select_role_id d ''user''")
      (simp_all add: create_user_without_role [OF assms] create_user_with_role [OF assms]
        Let_def)
  show "permissions (snd (create_user env d username email password first_name last_name))
           = permissions d"
    by (cases "select_role_id d ''user''")
      (simp_all add: create_user_without_role [OF assms] create_user_with_role [OF assms]
        Let_def)
qed

text \<open>
  Claim C4, as amended. With a fresh username and email, \<open>create_user\<close> returns the new id.
  It adds one row to \<open>users\<close>: the new id, the username and the email, the hash and the salt
  that \<open>hash_password\<close> returns for the password and a generated salt, the two names, and
  the defaults of the schema in the other columns. It appends one \<^verbatim>\<open>user_created\<close> entry
  for the new id to the security log. When a role is named \<^verbatim>\<open>user\<close>, as on every
  database that \<open>create_default_roles_and_permissions\<close> has seeded
  (\<open>seeding_has_role_user\<close> below), \<open>user_roles\<close> receives the row that joins the new id to
  the id of that role, assigned by the new user, in place of any row that held the pair. When
  no role is named \<^verbatim>\<open>user\<close>, \<open>user_roles\<close> stays as it was and the new id is returned all
  the same. Sessions, roles and permissions do not change.
\<close>

theorem C4_create_user_fresh:
  assumes "\<forall>u\<in>set (users d). u_username u \<noteq> username \<and> u_email u \<noteq> email"
  shows
    "(let uid = next_rowid (users_seq d) (map u_id (users d));
          lid = next_rowid (user_security_logs_seq d) (map l_id (user_security_logs d));
          ts = current_timestamp env;
          r = create_user env d username email password first_name last_name
      in fst r = Inr (Some (sint uid))
         \<and> users (snd r) = users d @
             [\<lparr>u_id = uid, u_username = username, u_email = email, u_email_verified = False,
               u_password_hash = fst (hash_password env password None),
               u_salt = Some (snd (hash_password env password None)),
               u_first_name = first_name, u_last_name = last_name, u_avatar_url = None,
               u_bio = None, u_is_active = True, u_is_deleted = False,
               u_current_results = None, u_last_login_at = None, u_created_at = ts,
               u_updated_at = ts\<rparr>]
         \<and> user_security_logs (snd r) = user_security_logs d @
             [\<lparr>l_id = lid, l_user_id = Some uid, l_event_type = ''user_created'',
               l_ip_address = None, l_user_agent = None, l_success = True,
               l_failure_reason = None, l_metadata = None, l_created_at = ts\<rparr>]
         \<and> (\<forall>rid. select_role_id d ''user'' = Some rid \<longrightarrow>
               user_roles (snd r) =
                 filter (\<lambda>x. \<not> (ur_user_id x = uid \<and> ur_role_id x = word_of_int rid))
                   (user_roles d) @
                 [\<lparr>ur_user_id = uid, ur_role_id = word_of_int rid, ur_assigned_by = Some uid,
                   ur_assigned_at = ts, ur_expires_at = None\<rparr>])
         \<and> (select_role_id d ''user'' = None \<longrightarrow> user_roles (snd r) = user_roles d)
         \<and> user_sessions (snd r) = user_sessions d
         \<and> roles (snd r) = roles d
         \<and> permissions (snd r) = permissions d)"
proof (cases "select_role_id d ''user''")
  case None
  show ?thesis
    using create_user_without_role [OF assms None, of env password first_name last_name] None
    by (simp add: Let_def user_row_def log_row_def)
next
  case (Some rid)
  have sp: "same_pair a b = (\<lambda>x. ur_user_id x = a \<and> ur_role_id x = b)" for a b
    by (rule ext) (simp add: same_pair_def)
  show ?thesis
    using create_user_with_role [OF assms Some, of env password first_name last_name] Some
    by (simp add: Let_def user_row_def log_row_def user_role_row_def sp)
qed

text \<open>
  The first user created on a freshly seeded database: John's row holds the hash and the salt
  of \<open>hash_password\<close>, and \<open>user_roles\<close> joins John, id 1, to the role \<^verbatim>\<open>user\<close>, id 3.
\<close>

theorem C4_witness:
  "users seeded_db = [] \<and> select_role_id seeded_db ''user'' = Some 3 \<and>
   fst (create_user sample_env seeded_db ''johndoe'' ''john@example.com'' ''password123''
          (Some ''John'') (Some ''Doe'')) = Inr (Some 1) \<and>
   map u_password_hash (users john_db) = [fst (hash_password sample_env ''password123'' None)] \<and>
   map u_salt (users john_db) = [Some (snd (hash_password sample_env ''password123'' None))] \<and>
   map (\<lambda>x. (ur_user_id x, ur_role_id x)) (user_roles john_db) = [(1, 3)] \<and>
   map (\<lambda>x. (l_user_id x, l_event_type x)) (user_security_logs john_db)
     = [(Some 1, ''user_created'')]"
proof -
  have fresh: "\<forall>u\<in>set (users seeded_db).
      u_username u \<noteq> ''johndoe'' \<and> u_email u \<noteq> ''john@example.com''"
    by (simp add: seeded_db_users)
  have ur: "user_roles seeded_db = []"
    by (simp add: seeded_db_def create_default_roles_and_permissions_def default_roles_def
      default_permissions_def insert_or_ignore_role_def insert_or_ignore_permission_def
      next_rowid_def empty_db_def Let_def)
  have ls: "user_security_logs_seq seeded_db = 0"
    by (simp add: seeded_db_def create_default_roles_and_permissions_def default_roles_def
      default_permissions_def insert_or_ignore_role_def insert_or_ignore_permission_def
      next_rowid_def empty_db_def Let_def)
  show ?thesis
    using C4_create_user_fresh [OF fresh, of sample_env "''password123''"
        "Some ''John''" "Some ''Doe''"] seeded_db_role_user
    by (simp add: Let_def next_rowid_def seeded_db_users seeded_db_users_seq seeded_db_logs
        ur ls john_db_def)
qed

text \<open>
  Claim C4 as stated fails on a database in which no role is named \<^verbatim>\<open>user\<close>: the call with
  a fresh username and email succeeds, returns the id 1, and assigns no role.
\<close>

theorem C4_counterexample:
  "users empty_db = [] \<and> select_role_id empty_db ''user'' = None
   \<and> fst (create_user sample_env empty_db ''janedoe'' ''jane@example.com'' ''securepass456''
            (Some ''Jane'') (Some ''Doe'')) = Inr (Some 1)
   \<and> user_roles (snd (create_user sample_env empty_db ''janedoe'' ''jane@example.com''
                        ''securepass456'' (Some ''Jane'') (Some ''Doe''))) = []"
proof -
  have fresh: "\<forall>u\<in>set (users empty_db).
      u_username u \<noteq> ''janedoe'' \<and> u_email u \<noteq> ''jane@example.com''"
    by (simp add: empty_db_def)
  have none: "select_role_id empty_db ''user'' = None"
    by (simp add: empty_db_def select_role_id_def)
  show ?thesis
    using create_user_without_role [OF fresh none, of sample_env "''securepass456''"
        "Some ''Jane''" "Some ''Doe''"] none
    by (simp add: Let_def next_rowid_def empty_db_def)
qed

text \<open>
  Claim C9. With a fresh username and email the insert succeeds and \<open>create_user\<close> returns
  the new id, whatever the role assignment returns; when no role is named \<^verbatim>\<open>user\<close> the
  assignment returns \<^verbatim>\<open>False\<close>, and the returned id comes with a \<open>user_roles\<close> table
  that has not changed.
\<close>

theorem C9_create_user_ignores_assignment:
  assumes "\<forall>u\<in>set (users d). u_username u \<noteq> username \<and> u_email u \<noteq> email"
  shows
    "(let uid = sint (next_rowid (users_seq d) (map u_id (users d)));
          hp = hash_password env password None;
          d1 = snd (insert_user (current_timestamp env) d username email (fst hp) (snd hp)
                      first_name last_name);
          r = create_user env d username email password first_name last_name
      in fst r = Inr (Some uid) \<and>
         (select_role_id d ''user'' = None \<longrightarrow>
            fst (assign_role_to_user env d1 uid (Str ''user'') uid) = Inr False \<and>
            user_roles (snd r) = user_roles d))"
proof (cases "select_role_id d ''user''")
  case None
  show ?thesis
    using create_user_without_role [OF assms None, of env password first_name last_name]
      insert_user_fresh [OF assms] None
    by (simp add: Let_def assign_role_unknown)
next
  case (Some rid)
  show ?thesis
    using create_user_with_role [OF assms Some, of env password first_name last_name] Some
    by (simp add: Let_def)
qed

text \<open>A database without roles.\<close>

theorem C9_witness:
  "users empty_db = [] \<and> select_role_id empty_db ''user'' = None \<and>
   fst (create_user sample_env empty_db ''johndoe'' ''john@example.com'' ''password123''
          None None) = Inr (Some 1) \<and>
   user_roles (snd (create_user sample_env empty_db ''johndoe'' ''john@example.com''
                      ''password123'' None None)) = []"
proof -
  have fresh: "\<forall>u\<in>set (users empty_db).
      u_username u \<noteq> ''johndoe'' \<and> u_email u \<noteq> ''john@example.com''"
    by (simp add: empty_db_def)
  have none: "select_role_id empty_db ''user'' = None"
    by (simp add: empty_db_def select_role_id_def)
  show ?thesis
    using C9_create_user_ignores_assignment [OF fresh, of sample_env "''password123''" None None]
      none
    by (simp add: Let_def next_rowid_def empty_db_def)
qed

section \<open>Authentication\<close>











section \<open>Sessions\<close>

lemma filter_filter_none: "filter P (filter (\<lambda>x. \<not> P x) xs) = []"
  by (induction xs) simp_all

text \<open>
  \<open>cleanup_expired_sessions\<close> compares \<open>expires_at\<close> with \<^verbatim>\<open>CURRENT_TIMESTAMP\<close>, and a second
  run that reads the same \<^verbatim>\<open>CURRENT_TIMESTAMP\<close> finds nothing to delete.
\<close>

lemma cleanup_expired_sessions_eq:
  "cleanup_expired_sessions env d =
     (int (length (filter (\<lambda>s. s_expires_at s < current_timestamp env) (user_sessions d))),
      d\<lparr>user_sessions :=
           filter (\<lambda>s. \<not> s_expires_at s < current_timestamp env) (user_sessions d)\<rparr>)"
proof -
  have e: "expired (current_timestamp env) = (\<lambda>s. s_expires_at s < current_timestamp env)"
    by (rule ext) (simp add: expired_def)
  show ?thesis
    by (simp add: cleanup_expired_sessions_def e)
qed

lemma cleanup_expired_sessions_twice:
  "cleanup_expired_sessions env (snd (cleanup_expired_sessions env d))
     = (0, snd (cleanup_expired_sessions env d))"
  by (simp add: cleanup_expired_sessions_def filter_filter_none)

lemma update_last_login_ok:
  "in_int64 i \<Longrightarrow>
   update_last_login ts d i =
     (Inr (),
      d\<lparr>users := map (\<lambda>u. if u_id u = word_of_int i
                          then u\<lparr>u_last_login_at := Some ts\<rparr> else u) (users d)\<rparr>)"
  by (simp add: update_last_login_def bind_int_ok)

lemma map_update_last_login_ids:
  "map u_id (map (\<lambda>u. if u_id u = w then u\<lparr>u_last_login_at := x\<rparr> else u) us) = map u_id us"
  by (induction us) simp_all

lemma update_last_login_user_exists [simp]:
  "user_exists (snd (update_last_login ts d i)) j = user_exists d j"
proof (cases "in_int64 i")
  case True
  have "map (\<lambda>u. sint (u_id u))
          (map (\<lambda>u. if u_id u = word_of_int i then u\<lparr>u_last_login_at := Some ts\<rparr> else u)
             (users d))
        = map (\<lambda>u. sint (u_id u)) (users d)"
    by (induction "users d" arbitrary: d) simp_all
  then show ?thesis
    using True by (simp add: update_last_login_ok user_exists_def)
next
  case False
  then show ?thesis by (simp add: update_last_login_def bind_int_overflow)
qed

lemma create_session_ok:
  assumes u: "user_exists d user_id"
    and f: "uuid4 env \<notin> set (map s_id (user_sessions d))"
    and t: "timedelta_hours duration_hours = Inr delta"
    and a: "datetime_add (datetime_now env) delta = Inr expires_at"
  shows "create_session env d user_id device_info ip_address duration_hours =
    (Inr (uuid4 env),
     d\<lparr>user_sessions := user_sessions d @
          [session_row (uuid4 env) (word_of_int user_id) device_info ip_address expires_at
             (current_timestamp env)],
       users := map (\<lambda>u. if u_id u = word_of_int user_id
                          then u\<lparr>u_last_login_at := Some (current_timestamp env)\<rparr> else u)
                  (users d),
       user_security_logs := user_security_logs d @
          [log_row (next_rowid (user_security_logs_seq d) (map l_id (user_security_logs d)))
             (current_timestamp env) (Some (word_of_int user_id)) ''login'' ip_address None
             True None None],
       user_security_logs_seq :=
          next_rowid (user_security_logs_seq d) (map l_id (user_security_logs d))\<rparr>)"
proof -
  let ?ts = "current_timestamp env"
  let ?d1 = "d\<lparr>user_sessions := user_sessions d @
          [session_row (uuid4 env) (word_of_int user_id) device_info ip_address expires_at
             ?ts]\<rparr>"
  let ?d2 = "?d1\<lparr>users := map (\<lambda>u. if u_id u = word_of_int user_id
                          then u\<lparr>u_last_login_at := Some ?ts\<rparr> else u) (users ?d1)\<rparr>"
  have r: "in_int64 user_id" using u by (rule user_exists_in_int64)
  have i: "insert_session ?ts d (uuid4 env) user_id device_info ip_address expires_at
             = (Inr (), ?d1)"
    using u f r by (simp add: insert_session_def bind_int_ok)
  have up: "update_last_login ?ts ?d1 user_id = (Inr (), ?d2)"
    using r by (rule update_last_login_ok)
  have "user_exists ?d1 user_id"
    using u by (simp add: user_exists_def)
  then have "user_exists (snd (update_last_login ?ts ?d1 user_id)) user_id"
    by (simp only: update_last_login_user_exists)
  then have ex: "user_exists ?d2 user_id"
    by (simp only: up snd_conv)
  have l: "log_security_event env ?d2 (Some user_id) (Str ''login'') (map_option Str ip_address)
             None True None None =
     (Inr (),
      ?d2\<lparr>user_security_logs := user_security_logs ?d2 @
           [log_row (next_rowid (user_security_logs_seq ?d2)
                       (map l_id (user_security_logs ?d2)))
              ?ts (Some (word_of_int user_id)) ''login'' ip_address None True None None],
        user_security_logs_seq :=
           next_rowid (user_security_logs_seq ?d2) (map l_id (user_security_logs ?d2))\<rparr>)"
    using log_security_event_no_metadata [where user_id = "Some user_id" and d = ?d2
        and env = env and event_type = "''login''" and ip = ip_address and ua = None
        and success = True and reason = None] ex
    by simp
  show ?thesis
    unfolding create_session_def Let_def
    by (simp only: t a i up l sum.case prod.case) simp
qed

lemma create_session_returns:
  assumes "fst (create_session env d user_id device_info ip_address duration_hours) = Inr sid"
  shows "user_exists d user_id" and "uuid4 env \<notin> set (map s_id (user_sessions d))"
    and "timedelta_hours duration_hours = Inr (duration_hours * 3600000000)"
    and "datetime_add (datetime_now env) (duration_hours * 3600000000)
           = Inr (datetime_now env + duration_hours * 3600000000)"
proof -
  obtain delta where t: "timedelta_hours duration_hours = Inr delta"
    using assms by (cases "timedelta_hours duration_hours") (simp_all add: create_session_def)
  obtain e where a: "datetime_add (datetime_now env) delta = Inr e"
    using assms t by (cases "datetime_add (datetime_now env) delta")
      (simp_all add: create_session_def)
  have td: "delta = duration_hours * 3600000000"
    using t by (simp add: timedelta_hours_def Let_def split: if_splits)
  have ed: "e = datetime_now env + delta"
    using a by (simp add: datetime_add_def Let_def split: if_splits)
  have b: "in_int64 user_id"
    using assms t a
    by (cases "in_int64 user_id")
      (simp_all add: create_session_def insert_session_def bind_int_overflow)
  have ue: "user_exists d user_id \<and> uuid4 env \<notin> set (map s_id (user_sessions d))"
    using assms t a b
    by (cases "uuid4 env \<in> set (map s_id (user_sessions d)) \<or> \<not> user_exists d user_id")
      (simp_all add: create_session_def insert_session_def bind_int_ok)
  show "user_exists d user_id" using ue by (rule conjunct1)
  show "uuid4 env \<notin> set (map s_id (user_sessions d))" using ue by (rule conjunct2)
  show "timedelta_hours duration_hours = Inr (duration_hours * 3600000000)"
    using t unfolding td .
  show "datetime_add (datetime_now env) (duration_hours * 3600000000)
           = Inr (datetime_now env + duration_hours * 3600000000)"
    using a unfolding ed td .
qed

lemma create_session_sessions:
  assumes "fst (create_session env d user_id device_info ip_address duration_hours) = Inr sid"
  shows "sid = uuid4 env"
    and "user_sessions (snd (create_session env d user_id device_info ip_address
            duration_hours)) =
         user_sessions d @
           [session_row (uuid4 env) (word_of_int user_id) device_info ip_address
              (datetime_now env + duration_hours * 3600000000) (current_timestamp env)]"
proof -
  note c = create_session_ok [OF create_session_returns [OF assms], of device_info ip_address]
  show "sid = uuid4 env" using assms by (simp add: c)
  show "user_sessions (snd (create_session env d user_id device_info ip_address
            duration_hours)) =
         user_sessions d @
           [session_row (uuid4 env) (word_of_int user_id) device_info ip_address
              (datetime_now env + duration_hours * 3600000000) (current_timestamp env)]"
    by (simp add: c)
qed



lemma behind_env_simps:
  "uuid4 behind_env = uuid4 sample_env" "current_timestamp behind_env = 63839700000000000"
  "datetime_now behind_env = 63839682000000000"
  by (simp_all add: behind_env_def sample_env_def)



lemma behind_session_1:
  "fst (create_session behind_env john_db 1 None None 1) = Inr (uuid4 behind_env)"
proof -
  have "create_session behind_env john_db 1 None None 1
          = (Inr (uuid4 behind_env),
     john_db\<lparr>user_sessions := user_sessions john_db @
          [session_row (uuid4 behind_env) (word_of_int 1) None None 63839685600000000
             (current_timestamp behind_env)],
       users := map (\<lambda>u. if u_id u = word_of_int 1
                          then u\<lparr>u_last_login_at := Some (current_timestamp behind_env)\<rparr>
                          else u)
                  (users john_db),
       user_security_logs := user_security_logs john_db @
          [log_row (next_rowid (user_security_logs_seq john_db)
                      (map l_id (user_security_logs john_db)))
             (current_timestamp behind_env) (Some (word_of_int 1)) ''login'' None None True
             None None],
       user_security_logs_seq :=
          next_rowid (user_security_logs_seq john_db)
            (map l_id (user_security_logs john_db))\<rparr>)"
  proof (rule create_session_ok [OF john_exists])
    show "uuid4 behind_env \<notin> set (map s_id (user_sessions john_db))"
      by (simp add: john_db_sessions)
    show "timedelta_hours 1 = Inr 3600000000"
      by (simp add: timedelta_hours_def)
    show "datetime_add (datetime_now behind_env) 3600000000 = Inr 63839685600000000"
      by (simp add: datetime_add_def behind_env_simps)
  qed
  then show ?thesis by simp
qed



text \<open>
  Claim C6 at a failing input. \<open>create_session\<close> writes \<open>expires_at\<close> from the local clock
  \<^verbatim>\<open>datetime.now()\<close>, and \<open>cleanup_expired_sessions\<close> compares it with
  \<^verbatim>\<open>CURRENT_TIMESTAMP\<close>, which is UTC. On the host five hours behind UTC a session of one
  hour for John is created with an \<open>expires_at\<close> one hour after \<^verbatim>\<open>datetime.now()\<close>, and
  the cleanup that follows at the same instant deletes it and returns 1: a session with a
  future expiry is not left untouched.
\<close>

theorem C6_failing_input:
  "datetime_now behind_env = current_timestamp behind_env - 5 * 3600000000 \<and>
   fst (create_session behind_env john_db 1 None None 1) = Inr (uuid4 behind_env) \<and>
   map s_expires_at (user_sessions (snd (create_session behind_env john_db 1 None None 1)))
     = [datetime_now behind_env + 1 * 3600000000] \<and>
   map (\<lambda>s. datetime_now behind_env < s_expires_at s)
       (user_sessions (snd (create_session behind_env john_db 1 None None 1))) = [True] \<and>
   fst (cleanup_expired_sessions behind_env
          (snd (create_session behind_env john_db 1 None None 1))) = 1 \<and>
   user_sessions (snd (cleanup_expired_sessions behind_env
          (snd (create_session behind_env john_db 1 None None 1)))) = []"
proof -
  have s: "user_sessions (snd (create_session behind_env john_db 1 None None 1)) =
         user_sessions john_db @
           [session_row (uuid4 behind_env) (word_of_int 1) None None
              (datetime_now behind_env + 1 * 3600000000) (current_timestamp behind_env)]"
    by (rule create_session_sessions(2) [OF behind_session_1])
  show ?thesis
    using behind_session_1
    by (simp add: s cleanup_expired_sessions_eq john_db_sessions session_row_def
        behind_env_simps)
qed

section \<open>Role assignment\<close>

text \<open>
  Claim C7, as amended. For a role name that no row of \<open>roles\<close> has, \<open>assign_role_to_user\<close>
  returns \<^verbatim>\<open>False\<close> and leaves the database as it was; a role name that holds a lone
  surrogate does not bind to the \<^verbatim>\<open>SELECT\<close>, and the \<^verbatim>\<open>UnicodeEncodeError\<close> passes to
  the caller. For a role name that exists:
  when \<open>user_id\<close> or \<open>assigned_by\<close> lies outside the 64-bit integers the bind raises
  \<^verbatim>\<open>OverflowError\<close>, which the method does not catch, and the database is as it was;
  when both lie inside and name rows of \<open>users\<close>, it returns \<^verbatim>\<open>True\<close>, removes the rows
  of that (user, role) pair and appends the new one, so that exactly one row holds the pair,
  and pairs that were distinct stay distinct; when both lie inside and one of them names no
  row of \<open>users\<close>, it returns \<^verbatim>\<open>False\<close> and leaves the database as it was.
\<close>

theorem C7_assign_role_to_user:
  "(select_role_id d role_name = None \<longrightarrow>
      assign_role_to_user env d user_id (Str role_name) assigned_by = (Inr False, d))
   \<and> (\<forall>rid. select_role_id d role_name = Some rid \<longrightarrow>
        (if \<not> (in_int64 user_id \<and> in_int64 assigned_by)
         then assign_role_to_user env d user_id (Str role_name) assigned_by
                = (Inl OverflowError, d)
         else if user_exists d user_id \<and> user_exists d assigned_by
         then assign_role_to_user env d user_id (Str role_name) assigned_by =
                (Inr True,
                 d\<lparr>user_roles :=
                      filter (\<lambda>x. \<not> (ur_user_id x = word_of_int user_id \<and>
                                       ur_role_id x = word_of_int rid)) (user_roles d) @
                      [\<lparr>ur_user_id = word_of_int user_id, ur_role_id = word_of_int rid,
                        ur_assigned_by = Some (word_of_int assigned_by),
                        ur_assigned_at = current_timestamp env, ur_expires_at = None\<rparr>]\<rparr>)
              \<and> length (filter (\<lambda>x. ur_user_id x = word_of_int user_id \<and>
                                      ur_role_id x = word_of_int rid)
                   (user_roles (snd (assign_role_to_user env d user_id (Str role_name)
                      assigned_by)))) = 1
              \<and> (distinct (map (\<lambda>r. (ur_user_id r, ur_role_id r)) (user_roles d)) \<longrightarrow>
                  distinct (map (\<lambda>r. (ur_user_id r, ur_role_id r))
                    (user_roles (snd (assign_role_to_user env d user_id (Str role_name)
                       assigned_by)))))
         else assign_role_to_user env d user_id (Str role_name) assigned_by = (Inr False, d)))
   \<and> assign_role_to_user env d user_id Unencodable assigned_by = (Inl UnicodeEncodeError, d)"
proof (intro conjI allI impI)
  assume "select_role_id d role_name = None"
  then show "assign_role_to_user env d user_id (Str role_name) assigned_by = (Inr False, d)"
    by (rule assign_role_unknown)
next
  fix rid
  assume r: "select_role_id d role_name = Some rid"
  let ?u = "word_of_int user_id :: int64" and ?r = "word_of_int rid :: int64"
  have sp: "same_pair a b = (\<lambda>x. ur_user_id x = a \<and> ur_role_id x = b)" for a b
    by (rule ext) (simp add: same_pair_def)
  show "if \<not> (in_int64 user_id \<and> in_int64 assigned_by)
         then assign_role_to_user env d user_id (Str role_name) assigned_by
                = (Inl OverflowError, d)
         else if user_exists d user_id \<and> user_exists d assigned_by
         then assign_role_to_user env d user_id (Str role_name) assigned_by =
                (Inr True,
                 d\<lparr>user_roles :=
                      filter (\<lambda>x. \<not> (ur_user_id x = word_of_int user_id \<and>
                                       ur_role_id x = word_of_int rid)) (user_roles d) @
                      [\<lparr>ur_user_id = word_of_int user_id, ur_role_id = word_of_int rid,
                        ur_assigned_by = Some (word_of_int assigned_by),
                        ur_assigned_at = current_timestamp env, ur_expires_at = None\<rparr>]\<rparr>)
              \<and> length (filter (\<lambda>x. ur_user_id x = word_of_int user_id \<and>
                                      ur_role_id x = word_of_int rid)
                   (user_roles (snd (assign_role_to_user env d user_id (Str role_name)
                      assigned_by)))) = 1
              \<and> (distinct (map (\<lambda>r. (ur_user_id r, ur_role_id r)) (user_roles d)) \<longrightarrow>
                  distinct (map (\<lambda>r. (ur_user_id r, ur_role_id r))
                    (user_roles (snd (assign_role_to_user env d user_id (Str role_name)
                       assigned_by)))))
         else assign_role_to_user env d user_id (Str role_name) assigned_by = (Inr False, d)"
  proof (cases "in_int64 user_id \<and> in_int64 assigned_by")
    case False
    then show ?thesis
      using assign_role_overflow [OF r False, of env] by simp
  next
    case range: True
    show ?thesis
    proof (cases "user_exists d user_id \<and> user_exists d assigned_by")
      case False
      then show ?thesis
        using range assign_role_fk [OF r _ _ False, of env] by simp
    next
      case True
      then have a: "assign_role_to_user env d user_id (Str role_name) assigned_by =
                (Inr True,
                 d\<lparr>user_roles :=
                      filter (\<lambda>x. \<not> (ur_user_id x = ?u \<and> ur_role_id x = ?r)) (user_roles d) @
                      [\<lparr>ur_user_id = ?u, ur_role_id = ?r,
                        ur_assigned_by = Some (word_of_int assigned_by),
                        ur_assigned_at = current_timestamp env, ur_expires_at = None\<rparr>]\<rparr>)"
        using assign_role_ok [OF r, of user_id assigned_by env]
        by (simp add: sp user_role_row_def)
      have one: "length (filter (\<lambda>x. ur_user_id x = ?u \<and> ur_role_id x = ?r)
          (filter (\<lambda>x. \<not> (ur_user_id x = ?u \<and> ur_role_id x = ?r)) (user_roles d) @
            [\<lparr>ur_user_id = ?u, ur_role_id = ?r,
              ur_assigned_by = Some (word_of_int assigned_by),
              ur_assigned_at = current_timestamp env, ur_expires_at = None\<rparr>])) = 1"
        by (simp add: filter_filter_none [of "\<lambda>x. ur_user_id x = ?u \<and> ur_role_id x = ?r"])
      have dist: "distinct (map (\<lambda>r. (ur_user_id r, ur_role_id r))
          (filter (\<lambda>x. \<not> (ur_user_id x = ?u \<and> ur_role_id x = ?r)) (user_roles d) @
            [\<lparr>ur_user_id = ?u, ur_role_id = ?r,
              ur_assigned_by = Some (word_of_int assigned_by),
              ur_assigned_at = current_timestamp env, ur_expires_at = None\<rparr>]))"
        if "distinct (map (\<lambda>r. (ur_user_id r, ur_role_id r)) (user_roles d))"
        using that by (auto simp: distinct_map_filter)
      show ?thesis
        using True range one dist by (simp add: a)
    qed
  qed
next
  show "assign_role_to_user env d user_id Unencodable assigned_by = (Inl UnicodeEncodeError, d)"
    by (rule assign_role_unencodable)
qed

text \<open>
  John makes himself an administrator; no role is named \<^verbatim>\<open>superuser\<close>; the user id
  \<open>2 ^ 63\<close> does not bind; and neither does a role name with a lone surrogate.
\<close>

theorem C7_witness:
  "select_role_id john_db ''admin'' = Some 1 \<and> user_exists john_db 1 \<and>
   fst (assign_role_to_user sample_env john_db 1 (Str ''admin'') 1) = Inr True \<and>
   map (\<lambda>x. (ur_user_id x, ur_role_id x))
     (user_roles (snd (assign_role_to_user sample_env john_db 1 (Str ''admin'') 1)))
     = [(1, 3), (1, 1)] \<and>
   select_role_id john_db ''superuser'' = None \<and>
   assign_role_to_user sample_env john_db 1 (Str ''superuser'') 1 = (Inr False, john_db) \<and>
   assign_role_to_user sample_env john_db (2 ^ 63) (Str ''admin'') 1
     = (Inl OverflowError, john_db) \<and>
   assign_role_to_user sample_env john_db 1 Unencodable 1 = (Inl UnicodeEncodeError, john_db)"
proof -
  have n: "select_role_id john_db ''superuser'' = None"
    by (simp add: john_db_eq seeded_db_def create_default_roles_and_permissions_def
        default_roles_def default_permissions_def insert_or_ignore_role_def
        insert_or_ignore_permission_def next_rowid_def empty_db_def Let_def select_role_id_def)
  have ur: "user_roles john_db = [user_role_row 1 3 1 (current_timestamp sample_env)]"
    by (simp add: john_db_eq)
  have r1: "in_int64 1" and r2: "\<not> in_int64 (2 ^ 63)"
    by (simp_all add: in_int64_def)
  note c = C7_assign_role_to_user [where d = john_db and env = sample_env]
  have a: "assign_role_to_user sample_env john_db 1 (Str ''admin'') 1 =
     (Inr True,
      john_db\<lparr>user_roles :=
        filter (\<lambda>x. \<not> (ur_user_id x = word_of_int 1 \<and> ur_role_id x = word_of_int 1))
          (user_roles john_db) @
        [\<lparr>ur_user_id = word_of_int 1, ur_role_id = word_of_int 1,
          ur_assigned_by = Some (word_of_int 1),
          ur_assigned_at = current_timestamp sample_env, ur_expires_at = None\<rparr>]\<rparr>)"
    using c [where role_name = "''admin''" and user_id = 1 and assigned_by = 1]
      john_db_roles john_exists r1 by simp
  have b: "assign_role_to_user sample_env john_db 1 (Str ''superuser'') 1 = (Inr False, john_db)"
    using c [where role_name = "''superuser''" and user_id = 1 and assigned_by = 1] n by simp
  have o: "assign_role_to_user sample_env john_db (2 ^ 63) (Str ''admin'') 1
             = (Inl OverflowError, john_db)"
    using c [where role_name = "''admin''" and user_id = "2 ^ 63" and assigned_by = 1]
      john_db_roles r2 by simp
  have e: "assign_role_to_user sample_env john_db 1 Unencodable 1
             = (Inl UnicodeEncodeError, john_db)"
    using c [where role_name = "''admin''" and user_id = 1 and assigned_by = 1] by simp
  show ?thesis
    using john_db_roles john_exists n b o e
    by (simp add: a ur user_role_row_def)
qed

text \<open>
  Claim C7 as stated fails: the role \<^verbatim>\<open>admin\<close> exists on the seeded database, no user has
  the id 5, and the assignment returns \<^verbatim>\<open>False\<close>.
\<close>

theorem C7_counterexample:
  "select_role_id seeded_db ''admin'' = Some 1 \<and>
   assign_role_to_user sample_env seeded_db 5 (Str ''admin'') 5 = (Inr False, seeded_db)"
proof -
  have "\<not> (user_exists seeded_db 5 \<and> user_exists seeded_db 5)"
    by (simp add: user_exists_def seeded_db_users)
  moreover have "in_int64 5" by (simp add: in_int64_def)
  ultimately show ?thesis
    using assign_role_fk [OF seeded_db_role_admin, of 5 5 sample_env] seeded_db_role_admin
    by simp
qed

section \<open>The security log\<close>

lemma metadata_json_nonempty:
  "md \<noteq> [] \<Longrightarrow>
   metadata_json env (Some md) = (case json_dumps env md of Inl e \<Rightarrow> Inl e | Inr s \<Rightarrow> Inr (Some s))"
  by (simp add: metadata_json_def)

text \<open>
  Claim C8, as amended. \<open>log_security_event\<close> returns and appends exactly one record when
  the metadata is absent, empty, or accepted by \<^verbatim>\<open>json.dumps\<close>, the text arguments encode
  as UTF-8, and \<open>user_id\<close> is absent or names a row of \<open>users\<close>. Otherwise it raises and the
  database is as it was: the exception of \<^verbatim>\<open>json.dumps\<close> when that raises on the
  metadata; else \<^verbatim>\<open>OverflowError\<close> when \<open>user_id\<close> lies outside the 64-bit integers; else
  \<^verbatim>\<open>UnicodeEncodeError\<close> when a text argument holds a lone surrogate; else
  \<^verbatim>\<open>IntegrityError\<close> when \<open>user_id\<close> names no row of \<open>users\<close>.
\<close>

theorem C8_log_security_event:
  "(\<forall>e. metadata_json env metadata = Inl e \<longrightarrow>
        log_security_event env d user_id event_type ip_address user_agent success
            failure_reason metadata = (Inl e, d))
   \<and> (\<forall>mj i. metadata_json env metadata = Inr mj \<and> user_id = Some i \<and> \<not> in_int64 i \<longrightarrow>
        log_security_event env d user_id event_type ip_address user_agent success
            failure_reason metadata = (Inl OverflowError, d))
   \<and> (\<forall>mj. metadata_json env metadata = Inr mj \<and>
          (case user_id of None \<Rightarrow> True | Some i \<Rightarrow> in_int64 i) \<and>
          (event_type = Unencodable \<or> ip_address = Some Unencodable \<or>
           user_agent = Some Unencodable \<or> failure_reason = Some Unencodable) \<longrightarrow>
        log_security_event env d user_id event_type ip_address user_agent success
            failure_reason metadata = (Inl UnicodeEncodeError, d))
   \<and> (\<forall>mj i et ip ua fr. metadata_json env metadata = Inr mj \<and>
          event_type = Str et \<and> ip_address = map_option Str ip \<and>
          user_agent = map_option Str ua \<and> failure_reason = map_option Str fr \<and>
          user_id = Some i \<and> in_int64 i \<and> \<not> user_exists d i \<longrightarrow>
        log_security_event env d user_id event_type ip_address user_agent success
            failure_reason metadata = (Inl IntegrityError, d))
   \<and> (\<forall>mj et ip ua fr. metadata_json env metadata = Inr mj \<and>
          event_type = Str et \<and> ip_address = map_option Str ip \<and>
          user_agent = map_option Str ua \<and> failure_reason = map_option Str fr \<and>
          (case user_id of None \<Rightarrow> True | Some i \<Rightarrow> user_exists d i) \<longrightarrow>
        log_security_event env d user_id event_type ip_address user_agent success
            failure_reason metadata =
          (Inr (),
           d\<lparr>user_security_logs := user_security_logs d @
                [\<lparr>l_id = next_rowid (user_security_logs_seq d)
                           (map l_id (user_security_logs d)),
                  l_user_id = map_option word_of_int user_id, l_event_type = et,
                  l_ip_address = ip, l_user_agent = ua, l_success = success,
                  l_failure_reason = fr, l_metadata = mj,
                  l_created_at = current_timestamp env\<rparr>],
             user_security_logs_seq :=
                next_rowid (user_security_logs_seq d) (map l_id (user_security_logs d))\<rparr>))"
proof (intro conjI allI impI)
  fix e
  assume "metadata_json env metadata = Inl e"
  then show "log_security_event env d user_id event_type ip_address user_agent success
            failure_reason metadata = (Inl e, d)"
    by (rule log_security_event_dumps)
next
  fix mj i
  assume "metadata_json env metadata = Inr mj \<and> user_id = Some i \<and> \<not> in_int64 i"
  then show "log_security_event env d user_id event_type ip_address user_agent success
            failure_reason metadata = (Inl OverflowError, d)"
    using log_security_event_overflow [where env = env and metadata = metadata and mj = mj
        and i = i and d = d] by simp
next
  fix mj
  assume h: "metadata_json env metadata = Inr mj \<and>
          (case user_id of None \<Rightarrow> True | Some i \<Rightarrow> in_int64 i) \<and>
          (event_type = Unencodable \<or> ip_address = Some Unencodable \<or>
           user_agent = Some Unencodable \<or> failure_reason = Some Unencodable)"
  show "log_security_event env d user_id event_type ip_address user_agent success
            failure_reason metadata = (Inl UnicodeEncodeError, d)"
    by (rule log_security_event_unencodable [where env = env and metadata = metadata
          and mj = mj]) (use h in simp_all)
next
  fix mj i et ip ua fr
  assume "metadata_json env metadata = Inr mj \<and>
          event_type = Str et \<and> ip_address = map_option Str ip \<and>
          user_agent = map_option Str ua \<and> failure_reason = map_option Str fr \<and>
          user_id = Some i \<and> in_int64 i \<and> \<not> user_exists d i"
  then show "log_security_event env d user_id event_type ip_address user_agent success
            failure_reason metadata = (Inl IntegrityError, d)"
    using log_security_event_fk [where env = env and metadata = metadata and mj = mj
        and i = i and d = d and event_type = et and ip = ip and ua = ua
        and success = success and reason = fr] by simp
next
  fix mj et ip ua fr
  assume "metadata_json env metadata = Inr mj \<and>
          event_type = Str et \<and> ip_address = map_option Str ip \<and>
          user_agent = map_option Str ua \<and> failure_reason = map_option Str fr \<and>
          (case user_id of None \<Rightarrow> True | Some i \<Rightarrow> user_exists d i)"
  then show "log_security_event env d user_id event_type ip_address user_agent success
            failure_reason metadata =
          (Inr (),
           d\<lparr>user_security_logs := user_security_logs d @
                [\<lparr>l_id = next_rowid (user_security_logs_seq d)
                           (map l_id (user_security_logs d)),
                  l_user_id = map_option word_of_int user_id, l_event_type = et,
                  l_ip_address = ip, l_user_agent = ua, l_success = success,
                  l_failure_reason = fr, l_metadata = mj,
                  l_created_at = current_timestamp env\<rparr>],
             user_security_logs_seq :=
                next_rowid (user_security_logs_seq d) (map l_id (user_security_logs d))\<rparr>)"
    using log_security_event_ok [where env = env and metadata = metadata and mj = mj
        and user_id = user_id and d = d and event_type = et and ip = ip and ua = ua
        and success = success and reason = fr]
    by (simp add: log_row_def)
qed

text \<open>
  An entry for John with one item of metadata; the same call with a user agent that does not
  encode; and that call with the user id \<open>2 ^ 63\<close>.
\<close>

theorem C8_witness:
  "metadata_json sample_env (Some [(''attempt'', 1)]) = Inr (Some ''{\"attempt\": 1}'') \<and>
   user_exists john_db 1 \<and>
   fst (log_security_event sample_env john_db (Some 1) (Str ''password_change'')
          (Some (Str ''192.168.1.100'')) (Some (Str ''Mozilla/5.0'')) True None
          (Some [(''attempt'', 1)])) = Inr () \<and>
   length (user_security_logs
      (snd (log_security_event sample_env john_db (Some 1) (Str ''password_change'')
              (Some (Str ''192.168.1.100'')) (Some (Str ''Mozilla/5.0'')) True None
              (Some [(''attempt'', 1)]))))
     = length (user_security_logs john_db) + 1 \<and>
   log_security_event sample_env john_db (Some 1) (Str ''password_change'')
      (Some (Str ''192.168.1.100'')) (Some Unencodable) True None (Some [(''attempt'', 1)])
     = (Inl UnicodeEncodeError, john_db) \<and>
   log_security_event sample_env john_db (Some (2 ^ 63)) (Str ''password_change'')
      (Some (Str ''192.168.1.100'')) (Some Unencodable) True None (Some [(''attempt'', 1)])
     = (Inl OverflowError, john_db)"
proof -
  have m: "metadata_json sample_env (Some [(''attempt'', 1)]) = Inr (Some ''{\"attempt\": 1}'')"
    by (simp add: metadata_json_def sample_env_def)
  have r1: "in_int64 1" and r2: "\<not> in_int64 (2 ^ 63)"
    by (simp_all add: in_int64_def)
  note c = C8_log_security_event [where env = sample_env and d = john_db
      and metadata = "Some [(''attempt'', 1)]" and event_type = "Str ''password_change''"
      and ip_address = "Some (Str ''192.168.1.100'')" and success = True
      and failure_reason = None]
  have a: "log_security_event sample_env john_db (Some 1) (Str ''password_change'')
          (Some (Str ''192.168.1.100'')) (Some (Str ''Mozilla/5.0'')) True None
          (Some [(''attempt'', 1)]) =
          (Inr (),
           john_db\<lparr>user_security_logs := user_security_logs john_db @
                [\<lparr>l_id = next_rowid (user_security_logs_seq john_db)
                           (map l_id (user_security_logs john_db)),
                  l_user_id = map_option word_of_int (Some 1),
                  l_event_type = ''password_change'',
                  l_ip_address = Some ''192.168.1.100'', l_user_agent = Some ''Mozilla/5.0'',
                  l_success = True, l_failure_reason = None,
                  l_metadata = Some ''{\"attempt\": 1}'',
                  l_created_at = current_timestamp sample_env\<rparr>],
             user_security_logs_seq :=
                next_rowid (user_security_logs_seq john_db)
                  (map l_id (user_security_logs john_db))\<rparr>)"
    using c [where user_id = "Some 1" and user_agent = "Some (Str ''Mozilla/5.0'')",
        THEN conjunct2, THEN conjunct2, THEN conjunct2, THEN conjunct2, rule_format,
        of "Some ''{\"attempt\": 1}''" "''password_change''" "Some ''192.168.1.100''"
          "Some ''Mozilla/5.0''" None]
      m john_exists
    by simp
  have b: "log_security_event sample_env john_db (Some 1) (Str ''password_change'')
      (Some (Str ''192.168.1.100'')) (Some Unencodable) True None (Some [(''attempt'', 1)])
     = (Inl UnicodeEncodeError, john_db)"
    using c [where user_id = "Some 1" and user_agent = "Some Unencodable",
        THEN conjunct2, THEN conjunct2, THEN conjunct1] m r1
    by simp
  have o: "log_security_event sample_env john_db (Some (2 ^ 63)) (Str ''password_change'')
      (Some (Str ''192.168.1.100'')) (Some Unencodable) True None (Some [(''attempt'', 1)])
     = (Inl OverflowError, john_db)"
    using c [where user_id = "Some (2 ^ 63)" and user_agent = "Some Unencodable",
        THEN conjunct2, THEN conjunct1] m r2
    by simp
  show ?thesis
    using m john_exists b o by (simp add: a)
qed

text \<open>
  Claim C8 as stated fails: on the seeded database no user has the id 999, and the call
  raises \<^verbatim>\<open>IntegrityError\<close> and appends nothing.
\<close>

theorem C8_counterexample:
  "log_security_event sample_env seeded_db (Some 999) (Str ''login'') None
      (Some (Str ''Mozilla/5.0'')) True None None = (Inl IntegrityError, seeded_db)"
proof -
  have "\<not> user_exists seeded_db 999"
    by (simp add: user_exists_def seeded_db_users)
  moreover have "in_int64 999" by (simp add: in_int64_def)
  ultimately show ?thesis
    using log_security_event_fk [OF metadata_json_None, where i = 999 and d = seeded_db
        and env = sample_env and event_type = "''login''" and ip = None
        and ua = "Some ''Mozilla/5.0''" and success = True and reason = None]
    by simp
qed

text \<open>
  Claim C10. A call with the empty dictionary as metadata is the call without metadata: the
  metadata column of the entry is null. Only a dictionary with an item goes through
  \<^verbatim>\<open>json.dumps\<close>, and the column then holds the text it returns.
\<close>

theorem C10_empty_metadata:
  "log_security_event env d user_id event_type ip_address user_agent success failure_reason
      (Some [])
     = log_security_event env d user_id event_type ip_address user_agent success
         failure_reason None
   \<and> metadata_json env None = Inr None
   \<and> metadata_json env (Some []) = Inr None
   \<and> (md \<noteq> [] \<longrightarrow>
        metadata_json env (Some md)
          = (case json_dumps env md of Inl e \<Rightarrow> Inl e | Inr s \<Rightarrow> Inr (Some s)))
   \<and> ((case user_id of None \<Rightarrow> True | Some i \<Rightarrow> user_exists d i) \<longrightarrow>
        l_metadata (last (user_security_logs
          (snd (log_security_event env d user_id (Str et) (map_option Str ip)
                  (map_option Str ua) success (map_option Str fr) (Some []))))) = None
        \<and> (\<forall>js. md \<noteq> [] \<and> json_dumps env md = Inr js \<longrightarrow>
             l_metadata (last (user_security_logs
               (snd (log_security_event env d user_id (Str et) (map_option Str ip)
                       (map_option Str ua) success (map_option Str fr) (Some md)))))
               = Some js))"
proof (intro conjI impI allI)
  show "log_security_event env d user_id event_type ip_address user_agent success failure_reason
      (Some [])
     = log_security_event env d user_id event_type ip_address user_agent success
         failure_reason None"
    by (simp add: log_security_event_def)
  show "metadata_json env None = Inr None" by simp
  show "metadata_json env (Some []) = Inr None" by simp
next
  assume "md \<noteq> []"
  then show "metadata_json env (Some md)
          = (case json_dumps env md of Inl e \<Rightarrow> Inl e | Inr s \<Rightarrow> Inr (Some s))"
    by (rule metadata_json_nonempty)
next
  assume ok: "case user_id of None \<Rightarrow> True | Some i \<Rightarrow> user_exists d i"
  show "l_metadata (last (user_security_logs
          (snd (log_security_event env d user_id (Str et) (map_option Str ip)
                  (map_option Str ua) success (map_option Str fr) (Some []))))) = None"
    using log_security_event_ok [OF metadata_json_Nil ok, where env = env
        and event_type = et and ip = ip and ua = ua and success = success and reason = fr]
    by (simp add: log_row_def)
next
  fix js
  assume ok: "case user_id of None \<Rightarrow> True | Some i \<Rightarrow> user_exists d i"
    and md: "md \<noteq> [] \<and> json_dumps env md = Inr js"
  have m: "metadata_json env (Some md) = Inr (Some js)"
    using md by (simp add: metadata_json_def)
  show "l_metadata (last (user_security_logs
               (snd (log_security_event env d user_id (Str et) (map_option Str ip)
                       (map_option Str ua) success (map_option Str fr) (Some md)))))
               = Some js"
    using log_security_event_ok [OF m ok, where event_type = et and ip = ip and ua = ua
        and success = success and reason = fr]
    by (simp add: log_row_def)
qed

text \<open>An entry for John with empty metadata, and one with a single item.\<close>

theorem C10_witness:
  "user_exists john_db 1 \<and>
   l_metadata (last (user_security_logs
     (snd (log_security_event sample_env john_db (Some 1) (Str ''logout'') None None True
             None (Some []))))) = None \<and>
   json_dumps sample_env [(''attempt'', 1)] = Inr ''{\"attempt\": 1}'' \<and>
   l_metadata (last (user_security_logs
     (snd (log_security_event sample_env john_db (Some 1) (Str ''logout'') None None True
             None (Some [(''attempt'', 1)]))))) = Some ''{\"attempt\": 1}''"
proof -
  have j: "json_dumps sample_env [(''attempt'', 1)] = Inr ''{\"attempt\": 1}''"
    by (simp add: sample_env_def)
  show ?thesis
    using C10_empty_metadata [where env = sample_env and d = john_db and user_id = "Some 1"
        and et = "''logout''" and ip = None and ua = None
        and success = True and fr = None and md = "[(''attempt'', 1)]",
        THEN conjunct2] j john_exists
    by simp
qed

section \<open>What the constructor establishes and the operations keep\<close>

text \<open>
  \<^verbatim>\<open>DatabaseManager.__init__\<close> runs \<open>create_default_roles_and_permissions\<close> on whatever
  the database file holds, so a database that has just been opened has the role
  \<^verbatim>\<open>user\<close>.
\<close>

lemma select_role_id_None_iff:
  "(select_role_id d n = None) = (\<not> list_ex (\<lambda>r. r_name r = n) (roles d))"
  by (auto simp: select_role_id_def find_None_iff list_ex_iff)

lemma insert_or_ignore_role_adds:
  "list_ex (\<lambda>r. r_name r = fst nd) (roles (insert_or_ignore_role ts d nd))"
  by (simp add: insert_or_ignore_role_def Let_def)

lemma insert_or_ignore_role_keeps:
  "list_ex (\<lambda>r. r_name r = n) (roles d) \<Longrightarrow>
   list_ex (\<lambda>r. r_name r = n) (roles (insert_or_ignore_role ts d nd))"
  by (simp add: insert_or_ignore_role_def Let_def)

lemma foldl_insert_or_ignore_role_keeps:
  "list_ex (\<lambda>r. r_name r = n) (roles d) \<Longrightarrow>
   list_ex (\<lambda>r. r_name r = n) (roles (foldl (insert_or_ignore_role ts) d nds))"
  by (induction nds arbitrary: d) (simp_all add: insert_or_ignore_role_keeps)

lemma foldl_insert_or_ignore_role_adds:
  "nd \<in> set nds \<Longrightarrow>
   list_ex (\<lambda>r. r_name r = fst nd) (roles (foldl (insert_or_ignore_role ts) d nds))"
proof (induction nds arbitrary: d)
  case Nil
  then show ?case by simp
next
  case (Cons a nds)
  show ?case
  proof (cases "nd = a")
    case True
    then show ?thesis
      by (simp add: foldl_insert_or_ignore_role_keeps insert_or_ignore_role_adds)
  next
    case False
    then show ?thesis using Cons by simp
  qed
qed

lemma insert_or_ignore_permission_roles [simp]:
  "roles (insert_or_ignore_permission ts d p) = roles d"
  by (cases p) (simp add: insert_or_ignore_permission_def Let_def)

lemma foldl_insert_or_ignore_permission_roles [simp]:
  "roles (foldl (insert_or_ignore_permission ts) d ps) = roles d"
  by (induction ps arbitrary: d) simp_all

lemma seeding_has_role_user:
  "select_role_id (create_default_roles_and_permissions env d) ''user'' \<noteq> None"
proof -
  have "(''user'', ''Standard user privileges'') \<in> set default_roles"
    by (simp add: default_roles_def)
  from foldl_insert_or_ignore_role_adds [OF this]
  show ?thesis
    by (simp add: select_role_id_None_iff create_default_roles_and_permissions_def)
qed

text \<open>
  No operation writes to \<open>roles\<close>, and the operations keep the usernames and the emails of
  \<open>users\<close> distinct; they keep the ids distinct as long as the largest id is below the
  largest 64-bit value.
\<close>

lemma insert_security_log_tables [simp]:
  "roles (snd (insert_security_log ts d uid et ip ua s fr mj)) = roles d"
  "users (snd (insert_security_log ts d uid et ip ua s fr mj)) = users d"
  by (simp_all add: insert_security_log_def Let_def split: sum.splits)

lemma log_security_event_tables [simp]:
  "roles (snd (log_security_event env d uid et ip ua s fr md)) = roles d"
  "users (snd (log_security_event env d uid et ip ua s fr md)) = users d"
  by (simp_all add: log_security_event_def split: sum.splits)

lemma log_security_event_tablesD:
  assumes "log_security_event env d uid et ip ua s fr md = (r, d')"
  shows "roles d' = roles d \<and> users d' = users d"
  using log_security_event_tables [of env d uid et ip ua s fr md] assms by simp

lemma assign_role_to_user_roles [simp]:
  "roles (snd (assign_role_to_user env d uid n by_id)) = roles d"
  by (simp add: assign_role_to_user_def insert_or_replace_user_role_def
      except_sqlite3_Error_def split: option.splits sum.splits)

lemma create_user_users:
  "users (snd (create_user env d username email password first_name last_name)) =
     (if \<exists>u\<in>set (users d). u_username u = username \<or> u_email u = email then users d
      else users d @
        [user_row (next_rowid (users_seq d) (map u_id (users d))) (current_timestamp env)
           username email (fst (hash_password env password None))
           (snd (hash_password env password None)) first_name last_name])"
proof (cases "\<exists>u\<in>set (users d). u_username u = username \<or> u_email u = email")
  case True
  then show ?thesis by (simp add: create_user_dup)
next
  case False
  then have fresh: "\<forall>u\<in>set (users d). u_username u \<noteq> username \<and> u_email u \<noteq> email"
    by blast
  show ?thesis
  proof (cases "select_role_id d ''user''")
    case None
    show ?thesis
      using False by (simp add: create_user_without_role [OF fresh None] Let_def)
  next
    case (Some rid)
    show ?thesis
      using False by (simp add: create_user_with_role [OF fresh Some] Let_def)
  qed
qed

lemma create_user_roles [simp]:
  "roles (snd (create_user env d username email password first_name last_name)) = roles d"
proof (cases "\<exists>u\<in>set (users d). u_username u = username \<or> u_email u = email")
  case True
  then show ?thesis by (simp add: create_user_dup)
next
  case False
  then have fresh: "\<forall>u\<in>set (users d). u_username u \<noteq> username \<and> u_email u \<noteq> email"
    by blast
  then show ?thesis by (rule create_user_other_tables)
qed

lemma create_user_keeps_unique:
  assumes "distinct (map u_email (users d))" and "distinct (map u_username (users d))"
  shows "distinct (map u_email
           (users (snd (create_user env d username email password first_name last_name))))"
    and "distinct (map u_username
           (users (snd (create_user env d username email password first_name last_name))))"
  using assms by (auto simp: create_user_users user_row_def)

lemma create_user_keeps_ids:
  assumes "distinct (map u_id (users d))"
    and "fold max (map sint (map u_id (users d))) (sint (users_seq d)) < 2 ^ 63 - 1"
  shows "distinct (map u_id
           (users (snd (create_user env d username email password first_name last_name))))"
  using assms(1) next_rowid_fresh [OF assms(2)]
  by (auto simp: create_user_users user_row_def)

lemma update_last_login_tables [simp]:
  "roles (snd (update_last_login ts d i)) = roles d"
  "map u_email (users (snd (update_last_login ts d i))) = map u_email (users d)"
  "map u_username (users (snd (update_last_login ts d i))) = map u_username (users d)"
  "map u_id (users (snd (update_last_login ts d i))) = map u_id (users d)"
  by (induction "users d" arbitrary: d;
      simp add: update_last_login_def bind_int_def split: sum.splits)+

lemma update_last_login_tablesD:
  assumes "update_last_login ts d i = (r, d')"
  shows "roles d' = roles d \<and> map u_email (users d') = map u_email (users d) \<and>
         map u_username (users d') = map u_username (users d) \<and>
         map u_id (users d') = map u_id (users d)"
  using update_last_login_tables [of ts d i] assms by simp

lemma create_session_tables:
  "roles (snd (create_session env d uid dev ip h)) = roles d"
  "map u_email (users (snd (create_session env d uid dev ip h))) = map u_email (users d)"
  "map u_username (users (snd (create_session env d uid dev ip h))) = map u_username (users d)"
  "map u_id (users (snd (create_session env d uid dev ip h))) = map u_id (users d)"
  by (auto simp: create_session_def insert_session_def Let_def
      split: sum.splits prod.splits
      dest!: log_security_event_tablesD update_last_login_tablesD)

lemma authenticate_user_tables [simp]:
  "roles (snd (authenticate_user env d email password)) = roles d"
  "users (snd (authenticate_user env d email password)) = users d"
  by (auto simp: authenticate_user_def split: option.splits sum.splits prod.splits
      dest!: log_security_event_tablesD)

lemma cleanup_expired_sessions_tables [simp]:
  "roles (snd (cleanup_expired_sessions env d)) = roles d"
  "users (snd (cleanup_expired_sessions env d)) = users d"
  by (simp_all add: cleanup_expired_sessions_def)

end
